theory Spec2Isabelle
  imports Main "HOL-Library.Multiset"
begin

section \<open>Cards\<close>

text \<open>
  A card is the object \<^verbatim>\<open>{ v, s }\<close> of both \<^verbatim>\<open>rules.js\<close> and
  \<^verbatim>\<open>handleMove.ts\<close> (\<^verbatim>\<open>CardType\<close>): \<open>v\<close> is the numeric value (an integer
  here), \<open>s\<close> the suit, a string (\<^verbatim>\<open>'H'\<close>, \<^verbatim>\<open>'D'\<close>, \<^verbatim>\<open>'S'\<close>, \<^verbatim>\<open>'C'\<close>,
  \<^verbatim>\<open>'R'\<close>, \<^verbatim>\<open>'B'\<close> in the rules; any string on the wire). Cards whose value or
  suit is \<^verbatim>\<open>undefined\<close> or \<^verbatim>\<open>null\<close> are outside the model.
\<close>

record CardType =
  v :: int
  s :: string

section \<open>The rules engine (\<^verbatim>\<open>rules.js\<close>)\<close>

subsection \<open>Constants\<close>

definition HEARTS :: string where "HEARTS = ''H''"
definition DIAMONDS :: string where "DIAMONDS = ''D''"
definition SPADES :: string where "SPADES = ''S''"
definition CLUBS :: string where "CLUBS = ''C''"
definition RED_JOKER :: string where "RED_JOKER = ''R''"
definition BLACK_JOKER :: string where "BLACK_JOKER = ''B''"

definition TWO :: int where "TWO = 2"
definition THREE :: int where "THREE = 3"
definition EIGHT :: int where "EIGHT = 8"
definition JACK :: int where "JACK = 11"
definition ACE :: int where "ACE = 15"

definition SUIT_COLORS_RED :: "string list" where
  "SUIT_COLORS_RED = [HEARTS, DIAMONDS]"

definition SUIT_COLORS_BLACK :: "string list" where
  "SUIT_COLORS_BLACK = [SPADES, CLUBS]"

definition PENALTY_VALUES :: "int list" where
  "PENALTY_VALUES = [TWO, THREE, 50]"

definition JOKERS :: "string list" where
  "JOKERS = [RED_JOKER, BLACK_JOKER]"

definition SKIP_VALUES :: "int list" where
  "SKIP_VALUES = [EIGHT, JACK]"

definition JOKER_PENALTY_VALUE :: int where
  "JOKER_PENALTY_VALUE = 5"

definition MASTER_CARD :: CardType where
  "MASTER_CARD = \<lparr>v = ACE, s = SPADES\<rparr>"

datatype NextActionType =
    INVALID_MOVE
  | PLAY_CARD
  | CHOOSE_SUIT
  | APPLY_PENALTY
  | SKIP_TURN
  | END_TURN
  | REDUCE_PENALTY
  | TRANSFER_PENALTY

subsection \<open>JavaScript values\<close>

text \<open>
  \<^verbatim>\<open>selectedSuit\<close> is a string or \<^verbatim>\<open>null\<close>. The source tests it in three ways:
  by truthiness (\<^verbatim>\<open>if (selectedSuit)\<close>, \<^verbatim>\<open>selectedSuit && ...\<close>,
  \<^verbatim>\<open>selectedSuit || prevCard.s\<close>), where the empty string counts as absent, and
  by \<^verbatim>\<open>??\<close>, where only \<^verbatim>\<open>null\<close> does.
\<close>

definition truthy :: "string option \<Rightarrow> bool" where
  "truthy x = (case x of None \<Rightarrow> False | Some t \<Rightarrow> t \<noteq> [])"

text \<open>\<^verbatim>\<open>x || 0\<close> on an optional number: \<^verbatim>\<open>undefined\<close> and \<^verbatim>\<open>0\<close> both give 0.\<close>

definition orZero :: "int option \<Rightarrow> int" where
  "orZero x = (case x of None \<Rightarrow> 0 | Some n \<Rightarrow> n)"

text \<open>The decimal text of an integer, as a template literal prints it.\<close>

function natStr :: "nat \<Rightarrow> string" where
  "natStr n =
     (if n < 10 then [''0123456789'' ! n]
      else natStr (n div 10) @ [''0123456789'' ! (n mod 10)])"
  by pat_completeness auto
termination
  by (relation "measure id") auto

definition numStr :: "int \<Rightarrow> string" where
  "numStr i = (if i < 0 then CHR ''-'' # natStr (nat (- i)) else natStr (nat i))"

subsection \<open>Card type checkers\<close>

definition isJoker :: "CardType \<Rightarrow> bool" where
  "isJoker card' = (s card' \<in> set JOKERS)"

definition isMasterCard :: "CardType \<Rightarrow> bool" where
  "isMasterCard card' = (v card' = v MASTER_CARD \<and> s card' = s MASTER_CARD)"

definition isAce :: "CardType \<Rightarrow> bool" where
  "isAce card' = (v card' = ACE)"

definition isPenaltyCard :: "CardType \<Rightarrow> bool" where
  "isPenaltyCard card' = (v card' \<in> set PENALTY_VALUES \<or> isJoker card')"

definition isValidJokerMove :: "CardType \<Rightarrow> CardType \<Rightarrow> string option \<Rightarrow> bool" where
  "isValidJokerMove card' prevCard selectedSuit =
     (if \<not> isJoker card' \<and> \<not> isJoker prevCard then False
      else
        let jokerCard = (if isJoker card' then card' else prevCard);
            isRedJoker = (s jokerCard = RED_JOKER);
            isBlackJoker = (s jokerCard = BLACK_JOKER);
            targetSuit = (case selectedSuit of
                            Some t \<Rightarrow> t
                          | None \<Rightarrow> (if isJoker card' then s prevCard else s card'))
        in if isRedJoker then targetSuit \<in> set SUIT_COLORS_RED
           else if isBlackJoker then targetSuit \<in> set SUIT_COLORS_BLACK
           else False)"

definition isBasicMatch :: "CardType \<Rightarrow> CardType \<Rightarrow> string option \<Rightarrow> bool" where
  "isBasicMatch card' prevCard selectedSuit =
     (if truthy selectedSuit then Some (s card') = selectedSuit
      else
        let hasValueMatch = (v card' = v prevCard);
            hasSuitMatch = (s card' = s prevCard);
            hasJokerColorMatch = isValidJokerMove card' prevCard selectedSuit
        in hasValueMatch \<or> hasSuitMatch \<or> hasJokerColorMatch)"

subsection \<open>Card effects\<close>

text \<open>
  The object \<^verbatim>\<open>getCardEffectAction\<close> returns; a field the source leaves out is
  \<open>None\<close>.
\<close>

record CardEffect =
  type :: NextActionType
  allowSuitChoice :: "bool option"
  penaltyCards :: "int option"
  skipTurns :: "int option"
  message :: string

definition getCardEffectAction :: "CardType \<Rightarrow> bool \<Rightarrow> CardEffect" where
  "getCardEffectAction card' isPenaltyActive =
     (if isJoker card' then
        \<lparr>type = CHOOSE_SUIT, allowSuitChoice = Some True,
         penaltyCards = Some JOKER_PENALTY_VALUE, skipTurns = None,
         message = ''Choose a suit for the joker''\<rparr>
      else if isMasterCard card' \<and> isPenaltyActive then
        \<lparr>type = END_TURN, allowSuitChoice = None, penaltyCards = None, skipTurns = None,
         message = ''Master card cancels all penalties''\<rparr>
      else if isAce card' \<and> \<not> isPenaltyActive then
        \<lparr>type = CHOOSE_SUIT, allowSuitChoice = Some True, penaltyCards = None,
         skipTurns = None, message = ''Choose a suit for the ace''\<rparr>
      else if v card' = TWO then
        \<lparr>type = APPLY_PENALTY, allowSuitChoice = None, penaltyCards = Some 2,
         skipTurns = None, message = ''Next player draws 2 cards''\<rparr>
      else if v card' = THREE then
        \<lparr>type = APPLY_PENALTY, allowSuitChoice = None, penaltyCards = Some 3,
         skipTurns = None, message = ''Next player draws 3 cards''\<rparr>
      else if v card' = EIGHT \<or> v card' = JACK then
        \<lparr>type = SKIP_TURN, allowSuitChoice = None, penaltyCards = None,
         skipTurns = Some 1, message = ''Next player skips their turn''\<rparr>
      else if v card' = 50 then
        \<lparr>type = APPLY_PENALTY, allowSuitChoice = None,
         penaltyCards = Some JOKER_PENALTY_VALUE, skipTurns = None,
         message = ''Next player draws 5 cards''\<rparr>
      else
        \<lparr>type = END_TURN, allowSuitChoice = None, penaltyCards = None, skipTurns = None,
         message = ''Turn ends normally''\<rparr>)"

subsection \<open>Penalty calculation\<close>

definition getCardPenaltyValue :: "CardType \<Rightarrow> int" where
  "getCardPenaltyValue card' = (if isJoker card' then JOKER_PENALTY_VALUE else v card')"

text \<open>
  The result of \<^verbatim>\<open>calculatePenaltyAction\<close> and of \<^verbatim>\<open>getNextAction\<close>: the
  fields of a card effect, which the source spreads into the result, and the penalty
  counts. \<open>valid\<close> is \<open>None\<close> where the object has no such field (the result of
  \<^verbatim>\<open>calculatePenaltyAction\<close> before \<^verbatim>\<open>getNextAction\<close> adds it).
\<close>

record NextAction = CardEffect +
  valid :: "bool option"
  nextPlayerPenaltyCount :: int
  currentPenaltyCount :: int
  drawCards :: "int option"

text \<open>
  \<^verbatim>\<open>{ ...cardEffect, valid, nextPlayerPenaltyCount, currentPenaltyCount }\<close>: the
  effect's own fields, with the three others beside them.
\<close>

definition spreadEffect :: "CardEffect \<Rightarrow> bool option \<Rightarrow> int \<Rightarrow> int \<Rightarrow> NextAction" where
  "spreadEffect e vl nxt cur =
     \<lparr>type = type e, allowSuitChoice = allowSuitChoice e, penaltyCards = penaltyCards e,
      skipTurns = skipTurns e, message = message e,
      valid = vl, nextPlayerPenaltyCount = nxt, currentPenaltyCount = cur,
      drawCards = None\<rparr>"

text \<open>An object literal with \<^verbatim>\<open>type\<close>, the two counts, \<^verbatim>\<open>drawCards\<close> and a message.\<close>

definition plainAction ::
  "NextActionType \<Rightarrow> bool option \<Rightarrow> int \<Rightarrow> int \<Rightarrow> int option \<Rightarrow> string \<Rightarrow> NextAction" where
  "plainAction t vl nxt cur dr msg =
     \<lparr>type = t, allowSuitChoice = None, penaltyCards = None, skipTurns = None,
      message = msg, valid = vl, nextPlayerPenaltyCount = nxt,
      currentPenaltyCount = cur, drawCards = dr\<rparr>"

definition calculatePenaltyAction ::
  "CardType \<Rightarrow> CardType \<Rightarrow> int \<Rightarrow> string option \<Rightarrow> NextAction" where
  "calculatePenaltyAction playedCard prevCard currentPenaltyCount' selectedSuit =
     (let referenceSuit = (if truthy selectedSuit then the selectedSuit else s prevCard);
          prevPenaltyValue = getCardPenaltyValue prevCard;
          playedPenaltyValue = getCardPenaltyValue playedCard;
          hasSameValue = (isPenaltyCard prevCard \<and> prevPenaltyValue = playedPenaltyValue);
          hasSameSuit = (isPenaltyCard prevCard \<and> referenceSuit = s playedCard);
          isPrevCardStronger =
            (isPenaltyCard prevCard \<and> prevPenaltyValue > playedPenaltyValue);
          isPrevCardWeaker =
            (isPenaltyCard prevCard \<and> prevPenaltyValue < playedPenaltyValue);
          hasColorMatch = isValidJokerMove playedCard prevCard selectedSuit
      in
      if hasSameValue then
        plainAction TRANSFER_PENALTY None playedPenaltyValue 0 None
          (''Penalty transferred to next player ('' @ numStr playedPenaltyValue
             @ '' cards)'')
      else if hasSameSuit \<and> isPrevCardWeaker then
        plainAction TRANSFER_PENALTY None playedPenaltyValue 0 None
          (''Same suit weaker card - penalty transferred (''
             @ numStr playedPenaltyValue @ '' cards)'')
      else if hasSameSuit \<and> isPrevCardStronger then
        (let reduction = min currentPenaltyCount' playedPenaltyValue;
             remainingPenalty = max (currentPenaltyCount' - playedPenaltyValue) 0
         in plainAction REDUCE_PENALTY None 0 remainingPenalty (Some remainingPenalty)
              (''Penalty reduced by '' @ numStr reduction @ '', remaining: ''
                 @ numStr remainingPenalty @ '' cards''))
      else if hasColorMatch \<and> isPrevCardWeaker then
        plainAction TRANSFER_PENALTY None (currentPenaltyCount' + playedPenaltyValue) 0
          None
          (''Color match weaker - penalty increased to ''
             @ numStr (currentPenaltyCount' + playedPenaltyValue) @ '' cards'')
      else if hasColorMatch \<and> isPrevCardStronger then
        (let reduction = min currentPenaltyCount' playedPenaltyValue;
             remainingPenalty = max (currentPenaltyCount' - playedPenaltyValue) 0
         in plainAction REDUCE_PENALTY None 0 remainingPenalty (Some remainingPenalty)
              (''Color match stronger - penalty reduced, draw ''
                 @ numStr remainingPenalty @ '' cards''))
      else
        (let cardEffect = getCardEffectAction playedCard False
         in spreadEffect cardEffect None
              (currentPenaltyCount' + orZero (penaltyCards cardEffect)) 0))"

subsection \<open>Move validation\<close>

text \<open>
  \<^verbatim>\<open>getNextAction(params)\<close>, with the destructured parameters as arguments.
  Where the source writes \<^verbatim>\<open>{ valid, message: m, ...cardEffect }\<close> the effect's
  message overrides \<open>m\<close>, since every card effect has one.
\<close>

definition getNextAction ::
  "CardType option \<Rightarrow> CardType \<Rightarrow> bool \<Rightarrow> string option \<Rightarrow> int \<Rightarrow> int \<Rightarrow> NextAction" where
  "getNextAction prevCard' playedCard isPenaltyActive selectedSuit currentPenaltyCount'
       nextPlayerPenaltyCount' =
     (case prevCard' of
        None \<Rightarrow>
          (let cardEffect = getCardEffectAction playedCard isPenaltyActive
           in spreadEffect cardEffect (Some True) (orZero (penaltyCards cardEffect)) 0)
      | Some prevCard \<Rightarrow>
          (let isValidMove =
                 (isBasicMatch playedCard prevCard selectedSuit
                  \<or> isMasterCard playedCard
                  \<or> (truthy selectedSuit \<and> Some (s playedCard) = selectedSuit)
                  \<or> isValidJokerMove playedCard prevCard selectedSuit
                  \<or> isAce playedCard)
           in
           if \<not> isValidMove then
             plainAction INVALID_MOVE (Some False) nextPlayerPenaltyCount'
               currentPenaltyCount' None
               (''Cannot play '' @ numStr (v playedCard) @ '' of '' @ s playedCard)
           else if isPenaltyActive \<and> currentPenaltyCount' > 0 then
             (if isMasterCard playedCard then
                (let cardEffect = getCardEffectAction playedCard isPenaltyActive
                 in spreadEffect cardEffect (Some True) 0 0)
              else if isPenaltyCard playedCard
                      \<and> isBasicMatch playedCard prevCard selectedSuit then
                (calculatePenaltyAction playedCard prevCard currentPenaltyCount'
                   selectedSuit)\<lparr>valid := Some True\<rparr>
              else
                plainAction INVALID_MOVE (Some False) nextPlayerPenaltyCount'
                  currentPenaltyCount' None
                  (''Must play a penalty card (2 or 3) or master card when penalty is active (''
                     @ numStr currentPenaltyCount' @ '' cards pending)''))
           else if isAce playedCard \<or> isJoker playedCard then
             (let cardEffect = getCardEffectAction playedCard isPenaltyActive
              in spreadEffect cardEffect (Some True) (orZero (penaltyCards cardEffect)) 0)
           else
             (let cardEffect = getCardEffectAction playedCard isPenaltyActive
              in spreadEffect cardEffect (Some True) (orZero (penaltyCards cardEffect)) 0)))"

section \<open>The turn handler (\<^verbatim>\<open>handleMove.ts\<close>)\<close>

subsection \<open>Session state and requests\<close>

text \<open>
  One entry of the request's \<^verbatim>\<open>cards\<close> array is \<^verbatim>\<open>{ type, v, s }\<close>: a card with
  the kind of sub-action, \<^verbatim>\<open>'DRAW'\<close> or \<^verbatim>\<open>'PLAY'\<close>. The field \<^verbatim>\<open>type\<close> is
  \<open>kind\<close> here (the rules engine's result already has a field \<open>type\<close>).
\<close>

record MoveCard = CardType +
  kind :: string

text \<open>\<^verbatim>\<open>{ v: action.v, s: action.s }\<close>\<close>

definition cardOf :: "MoveCard \<Rightarrow> CardType" where
  "cardOf action = \<lparr>v = v action, s = s action\<rparr>"

text \<open>
  \<^verbatim>\<open>GameState\<close>. \<open>players\<close> is the object from player id to hand, kept as the list
  of its entries in key order (\<^verbatim>\<open>Object.keys\<close> is used to pick the opponent and to
  rank the hands). The end of \<open>deck\<close> is the top of the draw pile, the end of
  \<open>playedCards\<close> the last card played. \<open>moveTimeout\<close> belongs to \<^verbatim>\<open>startTimeout\<close>
  and is never read or written by the handler, so it is left out.
\<close>

record GameState =
  gameId :: string
  players :: "(string \<times> CardType list) list"
  deck :: "CardType list"
  playedCards :: "CardType list"
  currentCard :: "CardType option"
  currentTurn :: string
  cuttingCard :: CardType
  chosenSuit :: "string option"
  activePenaltyCount :: int
  turnExpiresAt :: int
  waitTimeout :: "nat option"

text \<open>\<^verbatim>\<open>gameState.players[id]\<close> and the assignment to it (the key keeps its place).\<close>

definition getHand :: "GameState \<Rightarrow> string \<Rightarrow> CardType list option" where
  "getHand gameState pid = map_of (players gameState) pid"

fun setHandIn ::
  "(string \<times> CardType list) list \<Rightarrow> string \<Rightarrow> CardType list
     \<Rightarrow> (string \<times> CardType list) list" where
  "setHandIn [] pid h = [(pid, h)]"
| "setHandIn ((k, h0) # ps) pid h =
     (if k = pid then (k, h) # ps else (k, h0) # setHandIn ps pid h)"

definition setHand :: "GameState \<Rightarrow> string \<Rightarrow> CardType list \<Rightarrow> GameState" where
  "setHand gameState pid h = gameState\<lparr>players := setHandIn (players gameState) pid h\<rparr>"

subsection \<open>Drawing and reshuffling\<close>

definition PENALTY_CARDS :: "int list" where
  "PENALTY_CARDS = [2, 3, 50]"

text \<open>\<^verbatim>\<open>xs.slice(-n)\<close> and what \<^verbatim>\<open>xs.splice(-n)\<close> leaves in \<open>xs\<close>; \<^verbatim>\<open>-0\<close> is \<open>0\<close>,
  so with \<open>n = 0\<close> the slice is the whole array and the splice empties it.\<close>

definition sliceLast :: "nat \<Rightarrow> 'a list \<Rightarrow> 'a list" where
  "sliceLast n xs = (if n = 0 then xs else drop (length xs - n) xs)"

definition spliceLast :: "nat \<Rightarrow> 'a list \<Rightarrow> 'a list" where
  "spliceLast n xs = (if n = 0 then [] else take (length xs - n) xs)"

text \<open>
  \<^verbatim>\<open>validateDrawnCards\<close>: the helper that compares the claimed cards with the top
  of the deck. The only call to it in \<^verbatim>\<open>processDrawAction\<close> is commented out.
\<close>

definition validateDrawnCards :: "CardType list \<Rightarrow> CardType list \<Rightarrow> bool" where
  "validateDrawnCards deck' drawnCards =
     (if length drawnCards > length deck' then False
      else
        let topCards = sliceLast (length drawnCards) deck'
        in list_all (\<lambda>(drawnCard, deckCard).
                        v deckCard = v drawnCard \<and> s deckCard = s drawnCard)
             (zip drawnCards topCards))"

text \<open>
  \<^verbatim>\<open>handleDeckReshuffle\<close>. \<^verbatim>\<open>reshufflePlayedCards\<close> is imported from
  \<^verbatim>\<open>utils/cardUtils\<close>, outside the files modelled here: it is a parameter, the
  function from its two arguments to the \<^verbatim>\<open>newDeck\<close> of its result. The result is the new state,
  \<^verbatim>\<open>reshuffled\<close> and \<^verbatim>\<open>count\<close>.
\<close>

definition minimumDeckSize :: nat where
  "minimumDeckSize = 5"

definition handleDeckReshuffle ::
  "(CardType list \<Rightarrow> CardType list \<Rightarrow> CardType list) \<Rightarrow> GameState
     \<Rightarrow> GameState \<times> bool \<times> nat" where
  "handleDeckReshuffle reshufflePlayedCards gameState =
     (if length (deck gameState) \<le> minimumDeckSize \<and> length (playedCards gameState) > 1
      then
        let topCard = last (playedCards gameState);
            cardsToReshuffle = butlast (playedCards gameState);
            remainingDeckCards = deck gameState;
            newDeck = reshufflePlayedCards [] cardsToReshuffle;
            reshuffledCount = length cardsToReshuffle
        in (gameState\<lparr>deck := newDeck @ remainingDeckCards, playedCards := [topCard]\<rparr>,
            True, reshuffledCount)
      else (gameState, False, 0))"

text \<open>
  \<^verbatim>\<open>processDrawAction\<close>: \<open>Inr\<close> of the new state, \<^verbatim>\<open>success\<close> and
  \<^verbatim>\<open>reshuffled\<close>; \<open>Inl\<close> of the state reached when \<^verbatim>\<open>players[from]\<close> is
  undefined and \<^verbatim>\<open>push\<close> throws a TypeError.
\<close>

definition processDrawAction ::
  "(CardType list \<Rightarrow> CardType list \<Rightarrow> CardType list) \<Rightarrow> GameState \<Rightarrow> string
     \<Rightarrow> CardType list \<Rightarrow> GameState + GameState \<times> bool \<times> bool" where
  "processDrawAction reshufflePlayedCards gameState from' drawnCards =
     (case handleDeckReshuffle reshufflePlayedCards gameState of
        (gameState1, reshuffled, count') \<Rightarrow>
          let gameState2 = gameState1\<lparr>deck := spliceLast (length drawnCards) (deck gameState1)\<rparr>
          in case getHand gameState2 from' of
               None \<Rightarrow> Inl gameState2
             | Some hand \<Rightarrow> Inr (setHand gameState2 from' (hand @ drawnCards), True, reshuffled))"

subsection \<open>Playing a card\<close>

text \<open>The local helpers of \<^verbatim>\<open>processPenaltyCard\<close>, on card values.\<close>

definition isPenaltyCardValue :: "int option \<Rightarrow> bool" where
  "isPenaltyCardValue value = (case value of None \<Rightarrow> False | Some n \<Rightarrow> n \<in> set PENALTY_CARDS)"

definition getPenaltyValue :: "int \<Rightarrow> int" where
  "getPenaltyValue value = (if value = 50 then 5 else value)"

definition processPenaltyCard :: "GameState \<Rightarrow> CardType \<Rightarrow> GameState" where
  "processPenaltyCard gameState action =
     (let currentValue = map_option v (currentCard gameState);
          previousPenaltyCard =
            (if isPenaltyCardValue currentValue then currentCard gameState else None)
      in
      if isPenaltyCardValue (Some (v action)) then
        let newPenaltyValue = getPenaltyValue (v action)
        in case previousPenaltyCard of
             Some prev \<Rightarrow>
               let previousValue = getPenaltyValue (v prev)
               in if previousValue = newPenaltyValue then
                    gameState\<lparr>activePenaltyCount := newPenaltyValue\<rparr>
                  else if previousValue > newPenaltyValue then
                    gameState\<lparr>activePenaltyCount := 0\<rparr>
                  else gameState\<lparr>activePenaltyCount := newPenaltyValue\<rparr>
           | None \<Rightarrow> gameState\<lparr>activePenaltyCount := newPenaltyValue\<rparr>
      else gameState)"

text \<open>
  \<^verbatim>\<open>processPlayAction\<close>: \<open>Inr\<close> of the new state, \<^verbatim>\<open>isCuttingCard\<close> and
  \<^verbatim>\<open>remainingCards\<close>; \<open>Inl\<close> of the state reached when \<^verbatim>\<open>players[from]\<close> is
  undefined and \<^verbatim>\<open>filter\<close> throws a TypeError.
\<close>

definition processPlayAction ::
  "GameState \<Rightarrow> string \<Rightarrow> CardType \<Rightarrow> string option
     \<Rightarrow> GameState + GameState \<times> bool \<times> nat" where
  "processPlayAction gameState from' action newSuit =
     (let gameState1 =
            (if truthy (chosenSuit gameState) then gameState\<lparr>chosenSuit := None\<rparr>
             else gameState);
          gameState2 = processPenaltyCard gameState1 action;
          isCuttingCard = (v action = 7 \<and> s action = s (cuttingCard gameState2));
          gameState3 =
            (if truthy newSuit then gameState2\<lparr>chosenSuit := newSuit\<rparr> else gameState2)
      in case getHand gameState3 from' of
           None \<Rightarrow> Inl gameState3
         | Some hand \<Rightarrow>
             let hand' = filter (\<lambda>c. \<not> (v c = v action \<and> s c = s action)) hand;
                 gameState4 = setHand gameState3 from' hand';
                 gameState5 = gameState4\<lparr>playedCards := playedCards gameState4 @ [action],
                                         currentCard := Some action\<rparr>
             in Inr (gameState5, isCuttingCard, length hand'))"

subsection \<open>What the handler does to the outside\<close>

text \<open>
  The handler's effects, in the order it performs them: an error sent on the caller's
  socket, a call of \<^verbatim>\<open>endGame\<close> (game id, winner, loser, reason and the
  \<^verbatim>\<open>additionalData\<close> \<^verbatim>\<open>{ from, to, cards, newSuit }\<close>), a call of
  \<^verbatim>\<open>startTimeout\<close>, and a \<^verbatim>\<open>MOVE\<close> message sent to a player's socket. Sockets
  are told apart by a number. \<^verbatim>\<open>endGame\<close> and \<^verbatim>\<open>startTimeout\<close> are imported
  from other files; what they do to the session afterwards is outside the model. The
  session in a \<^verbatim>\<open>MOVE\<close> message is sent without its timeouts; in the model it is the
  session record at that moment, whose \<open>waitTimeout\<close> is \<open>None\<close> by then.
\<close>

type_synonym WebSocket = nat

record MoveData =
  moveFrom :: string
  moveTo :: string
  moveCards :: "MoveCard list"
  moveNewSuit :: "string option"
  moveGameState :: GameState
  moveReshuffled :: bool

datatype Effect =
    SendError WebSocket string
  | EndGame string string "string option" string
      "string \<times> string \<times> MoveCard list \<times> string option"
  | StartTimeout string
  | SendMove WebSocket MoveData

text \<open>The \<^verbatim>\<open>return\<close> by which a call of \<^verbatim>\<open>handleMove\<close> ends, or the TypeError
  that rejects its promise.\<close>

datatype Exit =
    GameNotFound
  | PlayerNotFound
  | DrawFailed
  | NoCards
  | CuttingCard
  | Completed
  | TypeErrorThrown

record HandleMoveResult =
  gameStatesAfter :: "string \<Rightarrow> GameState option"
  effects :: "Effect list"
  exit :: Exit

subsection \<open>The play loop\<close>

text \<open>
  \<^verbatim>\<open>for (const action of playActions)\<close>, with \<^verbatim>\<open>cuttingCardPlayed\<close> as an
  accumulator: the loop ends early when a play leaves exactly one card in the hand.
\<close>

datatype LoopResult =
    LoopThrew GameState
  | LoopWon GameState
  | LoopDone GameState bool

fun playLoop ::
  "GameState \<Rightarrow> string \<Rightarrow> string option \<Rightarrow> bool \<Rightarrow> MoveCard list \<Rightarrow> LoopResult" where
  "playLoop gameState from' newSuit cuttingCardPlayed [] =
     LoopDone gameState cuttingCardPlayed"
| "playLoop gameState from' newSuit cuttingCardPlayed (action # rest) =
     (case processPlayAction gameState from' (cardOf action) newSuit of
        Inl gameState' \<Rightarrow> LoopThrew gameState'
      | Inr (gameState', isCuttingCard, remainingCards) \<Rightarrow>
          if remainingCards = 1 then LoopWon gameState'
          else playLoop gameState' from' newSuit (cuttingCardPlayed \<or> isCuttingCard) rest)"

subsection \<open>Notifications\<close>

text \<open>
  Building \<^verbatim>\<open>moveDataCards\<close> also writes to the session: every entry that is not a
  draw sets \<^verbatim>\<open>currentCard\<close> to it and \<^verbatim>\<open>chosenSuit\<close> to \<^verbatim>\<open>newSuit\<close> or
  \<^verbatim>\<open>null\<close>. This runs once for each player, before the message for that player is
  built.
\<close>

definition moveDataCards :: "MoveCard list \<Rightarrow> MoveCard list" where
  "moveDataCards cards =
     map (\<lambda>c. \<lparr>v = v c, s = s c,
                kind = (if kind c = ''DRAW'' then ''DRAW'' else ''PLAY'')\<rparr>) cards"

definition notifyMutation :: "GameState \<Rightarrow> MoveCard list \<Rightarrow> string option \<Rightarrow> GameState" where
  "notifyMutation gameState cards newSuit =
     foldl (\<lambda>g c. if kind c = ''DRAW'' then g
                   else g\<lparr>currentCard := Some (cardOf c),
                          chosenSuit := (if truthy newSuit then newSuit else None)\<rparr>)
       gameState cards"

fun notifyPlayers ::
  "(string \<Rightarrow> WebSocket option) \<Rightarrow> string \<Rightarrow> string \<Rightarrow> MoveCard list \<Rightarrow> string option
     \<Rightarrow> bool \<Rightarrow> GameState \<Rightarrow> string list \<Rightarrow> GameState \<times> Effect list" where
  "notifyPlayers clients from' to' cards newSuit reshuffleOccurred gameState [] =
     (gameState, [])"
| "notifyPlayers clients from' to' cards newSuit reshuffleOccurred gameState
       (playerId # playerIds) =
     (let gameState' = notifyMutation gameState cards newSuit;
          moveData = \<lparr>moveFrom = from', moveTo = to', moveCards = moveDataCards cards,
                      moveNewSuit = newSuit, moveGameState = gameState',
                      moveReshuffled = reshuffleOccurred\<rparr>;
          sent = (case clients playerId of
                    None \<Rightarrow> []
                  | Some player \<Rightarrow> [SendMove player moveData])
      in case notifyPlayers clients from' to' cards newSuit reshuffleOccurred gameState'
                playerIds of
           (gameState'', others) \<Rightarrow> (gameState'', sent @ others))"

subsection \<open>\<^verbatim>\<open>handleMove\<close>\<close>

text \<open>
  The parameters are the collaborators (\<^verbatim>\<open>reshufflePlayedCards\<close>, the clock
  \<^verbatim>\<open>Date.now()\<close>, \<^verbatim>\<open>PLAY_TIMEOUT_DURATION\<close>, the \<^verbatim>\<open>clients\<close> and
  \<^verbatim>\<open>gameStates\<close> maps), the caller's socket and the fields of \<^verbatim>\<open>data\<close>. The
  session object is mutated in place, so the map holds the mutated session on every
  path past the two checks.
\<close>

text \<open>
  The draw phase of \<^verbatim>\<open>handleMove\<close>: the draw sub-actions are processed in one
  batch, if there are any; otherwise \<^verbatim>\<open>reshuffleOccurred\<close> stays \<^verbatim>\<open>false\<close>.
\<close>

definition drawPhase ::
  "(CardType list \<Rightarrow> CardType list \<Rightarrow> CardType list) \<Rightarrow> GameState \<Rightarrow> string
     \<Rightarrow> MoveCard list \<Rightarrow> GameState + GameState \<times> bool \<times> bool" where
  "drawPhase reshufflePlayedCards gameState from' cards =
     (let drawActions = filter (\<lambda>c. kind c = ''DRAW'') cards
      in if drawActions \<noteq> [] then
           processDrawAction reshufflePlayedCards gameState from' (map cardOf drawActions)
         else Inr (gameState, True, False))"

text \<open>
  The cutting-card ending: the hands are ranked by the sum of their card values with a
  stable sort; the first is the winner, the second the loser. With a single player
  \<^verbatim>\<open>playerCardSums[1].id\<close> throws a TypeError, which is \<open>None\<close> here.
\<close>

definition endByCuttingCard ::
  "GameState \<Rightarrow> string \<Rightarrow> string \<times> string \<times> MoveCard list \<times> string option
     \<Rightarrow> Effect option" where
  "endByCuttingCard gameState gameId' additionalData =
     (let playerCardSums =
            map (\<lambda>(id', hand). (id', sum_list (map v hand))) (players gameState);
          sorted = sort_key snd playerCardSums
      in case sorted of
           (winner, _) # (loser, _) # _ \<Rightarrow>
             Some (EndGame gameId' winner (Some loser) ''CUTTING_CARD'' additionalData)
         | _ \<Rightarrow> None)"

definition handleMove ::
  "(CardType list \<Rightarrow> CardType list \<Rightarrow> CardType list) \<Rightarrow> int \<Rightarrow> int
     \<Rightarrow> (string \<Rightarrow> WebSocket option) \<Rightarrow> (string \<Rightarrow> GameState option) \<Rightarrow> WebSocket
     \<Rightarrow> string \<Rightarrow> string \<Rightarrow> string \<Rightarrow> MoveCard list \<Rightarrow> string option
     \<Rightarrow> HandleMoveResult" where
  "handleMove reshufflePlayedCards now PLAY_TIMEOUT_DURATION clients gameStates ws
       gameId' from' to' cards newSuit =
     (case gameStates gameId' of
        None \<Rightarrow>
          \<lparr>gameStatesAfter = gameStates, effects = [SendError ws ''Game not found''],
           exit = GameNotFound\<rparr>
      | Some gameState0 \<Rightarrow>
          (case getHand gameState0 from' of
             None \<Rightarrow>
               \<lparr>gameStatesAfter = gameStates,
                effects = [SendError ws ''Player not found in game''],
                exit = PlayerNotFound\<rparr>
           | Some _ \<Rightarrow>
               (let gameState1 = gameState0\<lparr>waitTimeout := None\<rparr>;
                    playActions = filter (\<lambda>c. kind c = ''PLAY'') cards;
                    additionalData = (from', to', cards, newSuit);
                    stop = (\<lambda>g es x. \<lparr>gameStatesAfter = gameStates(gameId' \<mapsto> g),
                                        effects = es, exit = x\<rparr>)
                in
                case drawPhase reshufflePlayedCards gameState1 from' cards of
                  Inl g \<Rightarrow> stop g [] TypeErrorThrown
                | Inr (gameState2, success, reshuffleOccurred) \<Rightarrow>
                    if \<not> success then stop gameState2 [] DrawFailed
                    else
                      (case playLoop gameState2 from' newSuit False playActions of
                         LoopThrew g \<Rightarrow> stop g [] TypeErrorThrown
                       | LoopWon g \<Rightarrow>
                           (let opponent =
                                  find (\<lambda>id'. id' \<noteq> from') (map fst (players g))
                            in stop g
                                 [EndGame gameId' from' opponent ''NO_CARDS'' additionalData]
                                 NoCards)
                       | LoopDone gameState3 cuttingCardPlayed \<Rightarrow>
                           if cuttingCardPlayed then
                             (case endByCuttingCard gameState3 gameId' additionalData of
                                None \<Rightarrow> stop gameState3 [] TypeErrorThrown
                              | Some e \<Rightarrow> stop gameState3 [e] CuttingCard)
                           else
                             (let gameState4 =
                                    gameState3\<lparr>currentTurn := to',
                                      turnExpiresAt := now + PLAY_TIMEOUT_DURATION\<rparr>
                              in case notifyPlayers clients from' to' cards newSuit
                                        reshuffleOccurred gameState4
                                        (map fst (players gameState4)) of
                                   (gameState5, sends) \<Rightarrow>
                                     stop
                                       (if activePenaltyCount gameState5 \<noteq> 0
                                        then gameState5\<lparr>activePenaltyCount := 0\<rparr>
                                        else gameState5)
                                       (StartTimeout gameId' # sends)
                                       Completed)))))"

subsection \<open>The cards of a session\<close>

text \<open>
  All the cards of a session, with multiplicity: the hands, the draw pile and the
  discard pile. Conservation of the deck is stated on this multiset.
\<close>

definition allHands :: "(string \<times> CardType list) list \<Rightarrow> CardType multiset" where
  "allHands ps = sum_list (map (\<lambda>(pid, hand). mset hand) ps)"

definition allCards :: "GameState \<Rightarrow> CardType multiset" where
  "allCards gameState =
     allHands (players gameState) + mset (deck gameState) + mset (playedCards gameState)"

subsection \<open>A session to run the handler on\<close>

text \<open>
  The session of the repository's own tests (\<^verbatim>\<open>createMockGameState\<close> in
  \<^verbatim>\<open>handleMove.test.ts\<close>), with both players connected, and a stand-in for
  \<^verbatim>\<open>reshufflePlayedCards\<close> that puts the played cards, reversed, under the deck it
  is given.
\<close>

definition mockGameState :: GameState where
  "mockGameState =
     \<lparr>gameId = ''test-game-id'',
      players =
        [(''player1'', [\<lparr>v = 5, s = ''hearts''\<rparr>, \<lparr>v = 7, s = ''spades''\<rparr>,
                        \<lparr>v = 2, s = ''clubs''\<rparr>]),
         (''player2'', [\<lparr>v = 9, s = ''diamonds''\<rparr>, \<lparr>v = 11, s = ''hearts''\<rparr>])],
      deck = [\<lparr>v = 3, s = ''spades''\<rparr>, \<lparr>v = 4, s = ''hearts''\<rparr>, \<lparr>v = 6, s = ''clubs''\<rparr>],
      playedCards = [\<lparr>v = 8, s = ''diamonds''\<rparr>],
      currentCard = Some \<lparr>v = 8, s = ''diamonds''\<rparr>,
      currentTurn = ''player1'',
      cuttingCard = \<lparr>v = 7, s = ''spades''\<rparr>,
      chosenSuit = None,
      activePenaltyCount = 0,
      turnExpiresAt = 30000,
      waitTimeout = None\<rparr>"

definition mockGameStates :: "string \<Rightarrow> GameState option" where
  "mockGameStates = [''test-game-id'' \<mapsto> mockGameState]"

definition mockClients :: "string \<Rightarrow> WebSocket option" where
  "mockClients = [''player1'' \<mapsto> 1, ''player2'' \<mapsto> 2]"

definition reverseUnder :: "CardType list \<Rightarrow> CardType list \<Rightarrow> CardType list" where
  "reverseUnder deck' played = rev played @ deck'"

text \<open>One request on that session: \<^verbatim>\<open>player1\<close> moves, \<^verbatim>\<open>player2\<close> is next.\<close>

definition mockMove :: "MoveCard list \<Rightarrow> string option \<Rightarrow> HandleMoveResult" where
  "mockMove cards newSuit =
     handleMove reverseUnder 0 30000 mockClients mockGameStates 1 ''test-game-id''
       ''player1'' ''player2'' cards newSuit"

text \<open>The same session with four cards left in the deck and six cards played.\<close>

definition lowDeckGameState :: GameState where
  "lowDeckGameState =
     mockGameState
       \<lparr>deck := [\<lparr>v = 3, s = ''spades''\<rparr>, \<lparr>v = 4, s = ''hearts''\<rparr>, \<lparr>v = 6, s = ''clubs''\<rparr>,
                 \<lparr>v = 10, s = ''clubs''\<rparr>],
        playedCards := [\<lparr>v = 8, s = ''diamonds''\<rparr>, \<lparr>v = 8, s = ''clubs''\<rparr>,
                        \<lparr>v = 9, s = ''clubs''\<rparr>, \<lparr>v = 9, s = ''hearts''\<rparr>,
                        \<lparr>v = 4, s = ''diamonds''\<rparr>, \<lparr>v = 4, s = ''spades''\<rparr>]\<rparr>"

section \<open>Properties of the rules engine\<close>

lemmas rules_consts =
  HEARTS_def DIAMONDS_def SPADES_def CLUBS_def RED_JOKER_def BLACK_JOKER_def
  TWO_def THREE_def EIGHT_def JACK_def ACE_def SUIT_COLORS_RED_def
  SUIT_COLORS_BLACK_def PENALTY_VALUES_def JOKERS_def SKIP_VALUES_def
  JOKER_PENALTY_VALUE_def MASTER_CARD_def

lemmas checker_defs = isJoker_def isMasterCard_def isAce_def isPenaltyCard_def
  isValidJokerMove_def isBasicMatch_def getCardPenaltyValue_def truthy_def

lemma penalty_card_not_master: "isPenaltyCard c \<Longrightarrow> \<not> isMasterCard c"
  by (auto simp: isPenaltyCard_def isMasterCard_def isJoker_def rules_consts)

lemma master_is_ace: "isMasterCard c \<Longrightarrow> isAce c"
  by (simp add: isMasterCard_def isAce_def MASTER_CARD_def)

lemma master_not_joker: "isMasterCard c \<Longrightarrow> \<not> isJoker c"
  by (simp add: isMasterCard_def isJoker_def rules_consts)

lemma no_penalty_result:
  assumes "\<not> (isPenaltyActive \<and> 0 < pendingPenalty)"
    and "valid (getNextAction prev playedCard isPenaltyActive selectedSuit pendingPenalty nxt)
           = Some True"
  shows "getNextAction prev playedCard isPenaltyActive selectedSuit pendingPenalty nxt
         = spreadEffect (getCardEffectAction playedCard isPenaltyActive) (Some True)
             (orZero (penaltyCards (getCardEffectAction playedCard isPenaltyActive))) 0"
proof (cases prev)
  case None
  then show ?thesis by (simp add: getNextAction_def Let_def)
next
  case (Some p)
  show ?thesis
  proof (cases "isBasicMatch playedCard p selectedSuit \<or> isMasterCard playedCard
                \<or> (truthy selectedSuit \<and> Some (s playedCard) = selectedSuit)
                \<or> isValidJokerMove playedCard p selectedSuit \<or> isAce playedCard")
    case True
    show ?thesis
    proof (cases isPenaltyActive)
      case active: True
      with assms(1) have "\<not> 0 < pendingPenalty" by simp
      with Some True show ?thesis by (simp add: getNextAction_def Let_def)
    next
      case False
      with Some True show ?thesis by (simp add: getNextAction_def Let_def)
    qed
  next
    case False
    with Some have "valid (getNextAction prev playedCard isPenaltyActive selectedSuit
                     pendingPenalty nxt) = Some False"
      by (simp add: getNextAction_def Let_def plainAction_def)
    with assms(2) show ?thesis by simp
  qed
qed

lemma effect_joker:
  "isJoker c \<Longrightarrow> getCardEffectAction c a =
     \<lparr>type = CHOOSE_SUIT, allowSuitChoice = Some True,
      penaltyCards = Some 5, skipTurns = None,
      message = ''Choose a suit for the joker''\<rparr>"
  by (simp add: getCardEffectAction_def JOKER_PENALTY_VALUE_def)

lemma effect_ace:
  "\<not> isJoker c \<Longrightarrow> isAce c \<Longrightarrow> getCardEffectAction c False =
     \<lparr>type = CHOOSE_SUIT, allowSuitChoice = Some True, penaltyCards = None,
      skipTurns = None, message = ''Choose a suit for the ace''\<rparr>"
  by (simp add: getCardEffectAction_def)

lemma effect_ace_active:
  "\<not> isJoker c \<Longrightarrow> isAce c \<Longrightarrow>
     type (getCardEffectAction c True) = END_TURN
     \<and> penaltyCards (getCardEffectAction c True) = None"
  by (simp add: getCardEffectAction_def isAce_def rules_consts)

subsection \<open>Equal penalty weights transfer the penalty\<close>

text \<open>
  C3. Let the previous card and the played card both be penalty cards (value 2, 3 or
  50, or a joker suit) of equal penalty weight, where a joker weighs 5. If a penalty is
  active (\<^verbatim>\<open>isPenaltyActive\<close> and \<^verbatim>\<open>currentPenaltyCount > 0\<close>) and the played
  card is a basic match of the previous one, \<^verbatim>\<open>getNextAction\<close> answers
  \<^verbatim>\<open>TRANSFER_PENALTY\<close> (so not \<^verbatim>\<open>REDUCE_PENALTY\<close>), the next player's penalty
  is the played card's weight and the current count is 0.
\<close>

theorem equal_weight_transfers:
  assumes "isPenaltyCard prevCard" and "isPenaltyCard playedCard"
    and "getCardPenaltyValue prevCard = getCardPenaltyValue playedCard"
    and "isPenaltyActive" and "0 < pendingPenalty"
    and "isBasicMatch playedCard prevCard selectedSuit"
  shows "type (getNextAction (Some prevCard) playedCard isPenaltyActive selectedSuit
                 pendingPenalty nxt) = TRANSFER_PENALTY
       \<and> valid (getNextAction (Some prevCard) playedCard isPenaltyActive selectedSuit
                 pendingPenalty nxt) = Some True
       \<and> nextPlayerPenaltyCount (getNextAction (Some prevCard) playedCard isPenaltyActive
                 selectedSuit pendingPenalty nxt) = getCardPenaltyValue playedCard
       \<and> currentPenaltyCount (getNextAction (Some prevCard) playedCard isPenaltyActive
                 selectedSuit pendingPenalty nxt) = 0"
  using assms penalty_card_not_master[of playedCard]
  by (simp add: getNextAction_def Let_def calculatePenaltyAction_def plainAction_def)

theorem equal_weight_transfers_witness:
  "type (getNextAction (Some \<lparr>v = 50, s = ''R''\<rparr>) \<lparr>v = 50, s = ''B''\<rparr> True None 5 0) = TRANSFER_PENALTY
   \<and> nextPlayerPenaltyCount (getNextAction (Some \<lparr>v = 50, s = ''R''\<rparr>) \<lparr>v = 50, s = ''B''\<rparr> True None 5 0) = 5
   \<and> currentPenaltyCount (getNextAction (Some \<lparr>v = 50, s = ''R''\<rparr>) \<lparr>v = 50, s = ''B''\<rparr> True None 5 0) = 0"
  using equal_weight_transfers[of "\<lparr>v = 50, s = ''R''\<rparr>" "\<lparr>v = 50, s = ''B''\<rparr>" True 5 None 0]
  by (simp add: checker_defs rules_consts)

subsection \<open>A weaker penalty card on a stronger one reduces the penalty\<close>

lemma stronger_match_relation:
  assumes "isBasicMatch playedCard prevCard selectedSuit"
    and "isJoker prevCard \<longleftrightarrow> v prevCard = 50"
    and "isJoker playedCard \<longleftrightarrow> v playedCard = 50"
    and "getCardPenaltyValue prevCard \<noteq> getCardPenaltyValue playedCard"
  shows "s playedCard = (if truthy selectedSuit then the selectedSuit else s prevCard)
         \<or> isValidJokerMove playedCard prevCard selectedSuit"
proof (cases "truthy selectedSuit")
  case True
  with assms(1) show ?thesis by (auto simp: isBasicMatch_def)
next
  case False
  with assms(1) have "v playedCard = v prevCard \<or> s playedCard = s prevCard
                      \<or> isValidJokerMove playedCard prevCard selectedSuit"
    by (simp add: isBasicMatch_def Let_def)
  moreover have "v playedCard \<noteq> v prevCard"
    using assms(2,3,4) by (auto simp: getCardPenaltyValue_def)
  ultimately show ?thesis using False by auto
qed

text \<open>
  C4. Let a penalty be active (\<^verbatim>\<open>isPenaltyActive\<close> and a positive pending count),
  let the previous card be a penalty card, and let the played card be a penalty card of
  strictly smaller penalty weight that is a basic match of the previous one: of the
  reference suit (the selected suit if there is one, the previous card's suit
  otherwise), or matching a joker's colour. The basic match is what brings a penalty card
  to \<^verbatim>\<open>calculatePenaltyAction\<close> in the first place. Cards are as the deck has them:
  the joker suits go with the value 50 and with no other. Then \<^verbatim>\<open>getNextAction\<close>
  answers \<^verbatim>\<open>REDUCE_PENALTY\<close>; the remaining penalty is
  \<open>max (pending - played weight) 0\<close>, it is what the acting player draws
  (\<^verbatim>\<open>drawCards\<close>) and keeps as \<^verbatim>\<open>currentPenaltyCount\<close>, and the next player's
  penalty is 0. The witness has the 2 of Hearts on the 3 of Hearts with 5 pending
  (3 remain and 3 are drawn) and the 2 of Hearts on the red joker.
\<close>

theorem stronger_previous_reduces:
  assumes "isPenaltyActive" and "0 < pendingPenalty"
    and "isPenaltyCard prevCard" and "isPenaltyCard playedCard"
    and "isJoker prevCard \<longleftrightarrow> v prevCard = 50"
    and "isJoker playedCard \<longleftrightarrow> v playedCard = 50"
    and "isBasicMatch playedCard prevCard selectedSuit"
    and "getCardPenaltyValue prevCard > getCardPenaltyValue playedCard"
  shows "type (getNextAction (Some prevCard) playedCard isPenaltyActive selectedSuit
                 pendingPenalty nxt) = REDUCE_PENALTY
       \<and> valid (getNextAction (Some prevCard) playedCard isPenaltyActive selectedSuit
                 pendingPenalty nxt) = Some True
       \<and> currentPenaltyCount (getNextAction (Some prevCard) playedCard isPenaltyActive
                 selectedSuit pendingPenalty nxt)
           = max (pendingPenalty - getCardPenaltyValue playedCard) 0
       \<and> drawCards (getNextAction (Some prevCard) playedCard isPenaltyActive
                 selectedSuit pendingPenalty nxt)
           = Some (max (pendingPenalty - getCardPenaltyValue playedCard) 0)
       \<and> nextPlayerPenaltyCount (getNextAction (Some prevCard) playedCard isPenaltyActive
                 selectedSuit pendingPenalty nxt) = 0"
proof -
  let ?ref = "if truthy selectedSuit then the selectedSuit else s prevCard"
  from assms(8) have ne: "getCardPenaltyValue prevCard \<noteq> getCardPenaltyValue playedCard"
    by simp
  from stronger_match_relation[OF assms(7,5,6) ne]
  have rel: "s playedCard = ?ref \<or> isValidJokerMove playedCard prevCard selectedSuit" .
  have nm: "\<not> isMasterCard playedCard"
    using assms(4) by (rule penalty_card_not_master)
  have r: "getNextAction (Some prevCard) playedCard isPenaltyActive selectedSuit
             pendingPenalty nxt
           = (calculatePenaltyAction playedCard prevCard pendingPenalty selectedSuit)
               \<lparr>valid := Some True\<rparr>"
    using assms(1,2,4,7) nm by (simp add: getNextAction_def Let_def)
  show ?thesis
  proof (cases "s playedCard = ?ref")
    case True
    then have "?ref = s playedCard" by simp
    with assms(3,8) show ?thesis
      unfolding r by (simp add: calculatePenaltyAction_def Let_def plainAction_def)
  next
    case False
    then have nref: "(?ref = s playedCard) = False" by auto
    from False rel have cm: "isValidJokerMove playedCard prevCard selectedSuit" by simp
    from assms(3,8) cm show ?thesis
      unfolding r by (simp add: calculatePenaltyAction_def Let_def plainAction_def nref)
  qed
qed

theorem stronger_previous_reduces_witness:
  "type (getNextAction (Some \<lparr>v = 3, s = ''H''\<rparr>) \<lparr>v = 2, s = ''H''\<rparr> True None 5 0) = REDUCE_PENALTY
   \<and> currentPenaltyCount (getNextAction (Some \<lparr>v = 3, s = ''H''\<rparr>) \<lparr>v = 2, s = ''H''\<rparr> True None 5 0) = 3
   \<and> drawCards (getNextAction (Some \<lparr>v = 3, s = ''H''\<rparr>) \<lparr>v = 2, s = ''H''\<rparr> True None 5 0) = Some 3
   \<and> nextPlayerPenaltyCount (getNextAction (Some \<lparr>v = 3, s = ''H''\<rparr>) \<lparr>v = 2, s = ''H''\<rparr> True None 5 0) = 0
   \<and> type (getNextAction (Some \<lparr>v = 50, s = ''R''\<rparr>) \<lparr>v = 2, s = ''H''\<rparr> True None 5 0) = REDUCE_PENALTY
   \<and> drawCards (getNextAction (Some \<lparr>v = 50, s = ''R''\<rparr>) \<lparr>v = 2, s = ''H''\<rparr> True None 5 0) = Some 3"
  using stronger_previous_reduces[of True 5 "\<lparr>v = 3, s = ''H''\<rparr>" "\<lparr>v = 2, s = ''H''\<rparr>" None 0]
    stronger_previous_reduces[of True 5 "\<lparr>v = 50, s = ''R''\<rparr>" "\<lparr>v = 2, s = ''H''\<rparr>" None 0]
  by (simp add: checker_defs rules_consts)

subsection \<open>The master card\<close>

text \<open>
  The second part of C5 as the claim states it, that any card is a legal play on top of
  the master card, fails: the 7 of Hearts on the Ace of Spades is an invalid move.
\<close>

theorem any_card_on_master_counterexample:
  "isMasterCard \<lparr>v = 15, s = ''S''\<rparr>
   \<and> valid (getNextAction (Some \<lparr>v = 15, s = ''S''\<rparr>) \<lparr>v = 7, s = ''H''\<rparr> False None 0 0)
       = Some False
   \<and> type (getNextAction (Some \<lparr>v = 15, s = ''S''\<rparr>) \<lparr>v = 7, s = ''H''\<rparr> False None 0 0)
       = INVALID_MOVE"
  by (simp add: getNextAction_def plainAction_def checker_defs rules_consts)

text \<open>
  C5, amended. The master card (Ace of Spades) is a legal play on any previous card, or
  on none, in any context, and playing it while a penalty is active sets both the
  current and the next player's penalty count to 0. A card played on top of the master
  card has no privilege: without an active penalty it is legal exactly when it passes
  the general legality check against the master card (basic match, master card, joker colour
  match, or Ace).
\<close>

theorem master_card_rules:
  "(isMasterCard playedCard \<longrightarrow>
      valid (getNextAction prev playedCard isPenaltyActive selectedSuit pendingPenalty nxt)
        = Some True
      \<and> (isPenaltyActive \<and> 0 < pendingPenalty \<longrightarrow>
           nextPlayerPenaltyCount
             (getNextAction prev playedCard isPenaltyActive selectedSuit pendingPenalty nxt) = 0
           \<and> currentPenaltyCount
             (getNextAction prev playedCard isPenaltyActive selectedSuit pendingPenalty nxt) = 0))
   \<and> (isMasterCard prevCard \<and> \<not> (isPenaltyActive \<and> 0 < pendingPenalty) \<longrightarrow>
      valid (getNextAction (Some prevCard) playedCard isPenaltyActive selectedSuit
               pendingPenalty nxt)
        = Some (isBasicMatch playedCard prevCard selectedSuit \<or> isMasterCard playedCard
                \<or> isValidJokerMove playedCard prevCard selectedSuit \<or> isAce playedCard))"
proof (intro conjI impI)
  assume m: "isMasterCard playedCard"
  show "valid (getNextAction prev playedCard isPenaltyActive selectedSuit pendingPenalty nxt)
        = Some True"
    using m master_is_ace[OF m]
    by (simp add: getNextAction_def Let_def spreadEffect_def split: option.splits)
next
  assume m: "isMasterCard playedCard" and a: "isPenaltyActive \<and> 0 < pendingPenalty"
  have e: "penaltyCards (getCardEffectAction playedCard True) = None"
    using m master_not_joker[OF m] by (simp add: getCardEffectAction_def)
  show "nextPlayerPenaltyCount
          (getNextAction prev playedCard isPenaltyActive selectedSuit pendingPenalty nxt) = 0"
    using m a e
    by (simp add: getNextAction_def Let_def spreadEffect_def orZero_def split: option.splits)
  show "currentPenaltyCount
          (getNextAction prev playedCard isPenaltyActive selectedSuit pendingPenalty nxt) = 0"
    using m a
    by (simp add: getNextAction_def Let_def spreadEffect_def split: option.splits)
next
  assume "isMasterCard prevCard \<and> \<not> (isPenaltyActive \<and> 0 < pendingPenalty)"
  then show "valid (getNextAction (Some prevCard) playedCard isPenaltyActive selectedSuit
               pendingPenalty nxt)
        = Some (isBasicMatch playedCard prevCard selectedSuit \<or> isMasterCard playedCard
                \<or> isValidJokerMove playedCard prevCard selectedSuit \<or> isAce playedCard)"
    by (auto simp: getNextAction_def Let_def spreadEffect_def plainAction_def isBasicMatch_def)
qed

theorem master_card_rules_witness:
  "valid (getNextAction (Some \<lparr>v = 2, s = ''H''\<rparr>) \<lparr>v = 15, s = ''S''\<rparr> True None 2 0) = Some True
   \<and> nextPlayerPenaltyCount
       (getNextAction (Some \<lparr>v = 2, s = ''H''\<rparr>) \<lparr>v = 15, s = ''S''\<rparr> True None 2 0) = 0
   \<and> currentPenaltyCount
       (getNextAction (Some \<lparr>v = 2, s = ''H''\<rparr>) \<lparr>v = 15, s = ''S''\<rparr> True None 2 0) = 0
   \<and> valid (getNextAction (Some \<lparr>v = 15, s = ''S''\<rparr>) \<lparr>v = 7, s = ''S''\<rparr> False None 0 0) = Some True"
  using master_card_rules[of "\<lparr>v = 15, s = ''S''\<rparr>" "Some \<lparr>v = 2, s = ''H''\<rparr>" True None 2 0
          "\<lparr>v = 15, s = ''S''\<rparr>"]
    master_card_rules[of "\<lparr>v = 7, s = ''S''\<rparr>" "Some \<lparr>v = 15, s = ''S''\<rparr>" False None 0 0
          "\<lparr>v = 15, s = ''S''\<rparr>"]
  by (simp add: checker_defs rules_consts)

subsection \<open>Aces and jokers without an active penalty\<close>

text \<open>
  C6 as the claim states it fails where \<^verbatim>\<open>isPenaltyActive\<close> is set but the pending
  count is 0, which is still the branch without an active penalty: the Ace of Hearts on
  the 2 of Hearts is legal there and ends the turn, with no suit choice.
\<close>

theorem ace_choose_suit_counterexample:
  "\<not> (True \<and> (0::int) < 0)
   \<and> isAce \<lparr>v = 15, s = ''H''\<rparr>
   \<and> valid (getNextAction (Some \<lparr>v = 2, s = ''H''\<rparr>) \<lparr>v = 15, s = ''H''\<rparr> True None 0 0)
       = Some True
   \<and> type (getNextAction (Some \<lparr>v = 2, s = ''H''\<rparr>) \<lparr>v = 15, s = ''H''\<rparr> True None 0 0)
       = END_TURN
   \<and> allowSuitChoice (getNextAction (Some \<lparr>v = 2, s = ''H''\<rparr>) \<lparr>v = 15, s = ''H''\<rparr> True None 0 0)
       = None"
  by (simp add: getNextAction_def spreadEffect_def getCardEffectAction_def checker_defs rules_consts)

text \<open>
  C6, amended. In the branch without an active penalty (not both \<^verbatim>\<open>isPenaltyActive\<close>
  and a positive pending count), every legal play of a joker yields \<^verbatim>\<open>CHOOSE_SUIT\<close>
  with a suit choice and sets the next player's penalty to 5; every legal play of an Ace
  that is not a joker yields \<^verbatim>\<open>CHOOSE_SUIT\<close> with a suit choice and no penalty when
  \<^verbatim>\<open>isPenaltyActive\<close> is false, and \<^verbatim>\<open>END_TURN\<close> with no penalty when it is true.
\<close>

theorem ace_or_joker_without_penalty:
  assumes "\<not> (isPenaltyActive \<and> 0 < pendingPenalty)"
    and "valid (getNextAction prev playedCard isPenaltyActive selectedSuit pendingPenalty nxt)
           = Some True"
    and "isAce playedCard \<or> isJoker playedCard"
  shows "(isJoker playedCard \<longrightarrow>
            type (getNextAction prev playedCard isPenaltyActive selectedSuit pendingPenalty nxt)
              = CHOOSE_SUIT
          \<and> allowSuitChoice
              (getNextAction prev playedCard isPenaltyActive selectedSuit pendingPenalty nxt)
              = Some True
          \<and> nextPlayerPenaltyCount
              (getNextAction prev playedCard isPenaltyActive selectedSuit pendingPenalty nxt) = 5)
       \<and> (\<not> isJoker playedCard \<and> \<not> isPenaltyActive \<longrightarrow>
            type (getNextAction prev playedCard isPenaltyActive selectedSuit pendingPenalty nxt)
              = CHOOSE_SUIT
          \<and> allowSuitChoice
              (getNextAction prev playedCard isPenaltyActive selectedSuit pendingPenalty nxt)
              = Some True
          \<and> nextPlayerPenaltyCount
              (getNextAction prev playedCard isPenaltyActive selectedSuit pendingPenalty nxt) = 0)
       \<and> (\<not> isJoker playedCard \<and> isPenaltyActive \<longrightarrow>
            type (getNextAction prev playedCard isPenaltyActive selectedSuit pendingPenalty nxt)
              = END_TURN
          \<and> nextPlayerPenaltyCount
              (getNextAction prev playedCard isPenaltyActive selectedSuit pendingPenalty nxt) = 0)"
proof -
  let ?r = "getNextAction prev playedCard isPenaltyActive selectedSuit pendingPenalty nxt"
  let ?e = "getCardEffectAction playedCard isPenaltyActive"
  have r: "?r = spreadEffect ?e (Some True) (orZero (penaltyCards ?e)) 0"
    using assms(1,2) by (rule no_penalty_result)
  show ?thesis
    unfolding r using assms(3)
    by (auto simp: spreadEffect_def orZero_def effect_joker effect_ace effect_ace_active)
qed

theorem ace_or_joker_without_penalty_witness:
  "type (getNextAction (Some \<lparr>v = 7, s = ''H''\<rparr>) \<lparr>v = 50, s = ''R''\<rparr> False None 0 0) = CHOOSE_SUIT
   \<and> nextPlayerPenaltyCount
       (getNextAction (Some \<lparr>v = 7, s = ''H''\<rparr>) \<lparr>v = 50, s = ''R''\<rparr> False None 0 0) = 5
   \<and> type (getNextAction (Some \<lparr>v = 7, s = ''C''\<rparr>) \<lparr>v = 15, s = ''H''\<rparr> False None 0 0) = CHOOSE_SUIT
   \<and> nextPlayerPenaltyCount
       (getNextAction (Some \<lparr>v = 7, s = ''C''\<rparr>) \<lparr>v = 15, s = ''H''\<rparr> False None 0 0) = 0"
proof -
  have j: "valid (getNextAction (Some \<lparr>v = 7, s = ''H''\<rparr>) \<lparr>v = 50, s = ''R''\<rparr> False None 0 0)
             = Some True"
    by (simp add: getNextAction_def Let_def spreadEffect_def checker_defs rules_consts)
  have a: "valid (getNextAction (Some \<lparr>v = 7, s = ''C''\<rparr>) \<lparr>v = 15, s = ''H''\<rparr> False None 0 0)
             = Some True"
    by (simp add: getNextAction_def Let_def spreadEffect_def checker_defs rules_consts)
  show ?thesis
    using ace_or_joker_without_penalty[OF _ j] ace_or_joker_without_penalty[OF _ a]
    by (simp add: checker_defs rules_consts)
qed

section \<open>Properties of the turn handler\<close>

lemmas mock_defs = mockMove_def mockGameStates_def mockClients_def mockGameState_def
  reverseUnder_def lowDeckGameState_def

lemmas handler_defs = handleMove_def drawPhase_def processDrawAction_def
  handleDeckReshuffle_def processPlayAction_def processPenaltyCard_def getHand_def
  setHand_def cardOf_def notifyMutation_def moveDataCards_def endByCuttingCard_def
  truthy_def isPenaltyCardValue_def getPenaltyValue_def PENALTY_CARDS_def spliceLast_def
  sliceLast_def minimumDeckSize_def Let_def

subsection \<open>Hands\<close>

lemma map_of_setHandIn: "map_of (setHandIn ps k h) = (map_of ps)(k \<mapsto> h)"
  by (induction ps k h rule: setHandIn.induct) (auto simp: fun_upd_twist)

lemma getHand_setHand:
  "getHand (setHand g k h) k' = (if k' = k then Some h else getHand g k')"
  by (simp add: getHand_def setHand_def map_of_setHandIn)

lemma setHand_fields [simp]:
  "players (setHand g k h) = setHandIn (players g) k h"
  "deck (setHand g k h) = deck g"
  "playedCards (setHand g k h) = playedCards g"
  "currentCard (setHand g k h) = currentCard g"
  "currentTurn (setHand g k h) = currentTurn g"
  "cuttingCard (setHand g k h) = cuttingCard g"
  "chosenSuit (setHand g k h) = chosenSuit g"
  "activePenaltyCount (setHand g k h) = activePenaltyCount g"
  "turnExpiresAt (setHand g k h) = turnExpiresAt g"
  "waitTimeout (setHand g k h) = waitTimeout g"
  by (simp_all add: setHand_def)

lemma getHand_players_nonempty: "getHand g k = Some h \<Longrightarrow> players g \<noteq> []"
  by (auto simp: getHand_def)

lemma allHands_setHandIn:
  "map_of ps k = Some h \<Longrightarrow> allHands (setHandIn ps k h') + mset h = allHands ps + mset h'"
  by (induction ps k h' rule: setHandIn.induct) (auto simp: allHands_def)

subsection \<open>One play\<close>

lemma processPenaltyCard_fields [simp]:
  "players (processPenaltyCard g a) = players g"
  "deck (processPenaltyCard g a) = deck g"
  "playedCards (processPenaltyCard g a) = playedCards g"
  "currentCard (processPenaltyCard g a) = currentCard g"
  "currentTurn (processPenaltyCard g a) = currentTurn g"
  "cuttingCard (processPenaltyCard g a) = cuttingCard g"
  "chosenSuit (processPenaltyCard g a) = chosenSuit g"
  "turnExpiresAt (processPenaltyCard g a) = turnExpiresAt g"
  "waitTimeout (processPenaltyCard g a) = waitTimeout g"
  by (simp_all add: processPenaltyCard_def Let_def split: option.splits)

lemma processPlayAction_Inr:
  assumes "getHand g k = Some h"
  shows "\<exists>g'. processPlayAction g k a ns
               = Inr (g', v a = 7 \<and> s a = s (cuttingCard g),
                      length (filter (\<lambda>c. \<not> (v c = v a \<and> s c = s a)) h))
            \<and> players g' = setHandIn (players g) k (filter (\<lambda>c. \<not> (v c = v a \<and> s c = s a)) h)
            \<and> deck g' = deck g
            \<and> playedCards g' = playedCards g @ [a]
            \<and> currentCard g' = Some a
            \<and> currentTurn g' = currentTurn g
            \<and> turnExpiresAt g' = turnExpiresAt g
            \<and> waitTimeout g' = waitTimeout g"
  using assms by (simp add: processPlayAction_def Let_def getHand_def setHand_def)

lemma processPlayAction_getHand:
  assumes "getHand g k = Some h" and "processPlayAction g k a ns = Inr (g', cutting, n)"
  shows "getHand g' k = Some (filter (\<lambda>c. \<not> (v c = v a \<and> s c = s a)) h)"
proof -
  from processPlayAction_Inr[OF assms(1), of a ns] assms(2)
  have "players g' = setHandIn (players g) k (filter (\<lambda>c. \<not> (v c = v a \<and> s c = s a)) h)"
    by auto
  then show ?thesis by (simp add: getHand_def map_of_setHandIn)
qed

subsection \<open>The play loop\<close>

lemma playLoop_not_thrown:
  "getHand g k = Some h \<Longrightarrow> playLoop g k ns c as \<noteq> LoopThrew g'"
proof (induction as arbitrary: g h c)
  case Nil
  then show ?case by simp
next
  case (Cons a as)
  from processPlayAction_Inr[OF Cons.prems, of "cardOf a" ns] obtain g1 cutting n where
    p: "processPlayAction g k (cardOf a) ns = Inr (g1, cutting, n)" by blast
  from processPlayAction_getHand[OF Cons.prems p] have "getHand g1 k \<noteq> None" by simp
  then obtain h1 where "getHand g1 k = Some h1" by auto
  from Cons.IH[OF this] p show ?case by simp
qed

lemma playLoop_keeps:
  assumes "getHand g k = Some h"
    and "playLoop g k ns c as = LoopDone g' c' \<or> playLoop g k ns c as = LoopWon g'"
  shows "getHand g' k \<noteq> None \<and> currentTurn g' = currentTurn g
         \<and> turnExpiresAt g' = turnExpiresAt g \<and> waitTimeout g' = waitTimeout g
         \<and> deck g' = deck g"
  using assms
proof (induction as arbitrary: g h c)
  case Nil
  then show ?case by auto
next
  case (Cons a as)
  from processPlayAction_Inr[OF Cons.prems(1), of "cardOf a" ns] obtain g1 cutting n where
    p: "processPlayAction g k (cardOf a) ns = Inr (g1, cutting, n)"
    and f: "currentTurn g1 = currentTurn g" "turnExpiresAt g1 = turnExpiresAt g"
       "waitTimeout g1 = waitTimeout g" "deck g1 = deck g"
    by blast
  from processPlayAction_getHand[OF Cons.prems(1) p] obtain h1 where
    h1: "getHand g1 k = Some h1" by auto
  show ?case
  proof (cases "n = 1")
    case True
    with Cons.prems(2) p have "g' = g1" by simp
    with h1 f show ?thesis by simp
  next
    case False
    with Cons.prems(2) p have
      "playLoop g1 k ns (c \<or> cutting) as = LoopDone g' c' \<or> playLoop g1 k ns (c \<or> cutting) as = LoopWon g'"
      by simp
    from Cons.IH[OF h1 this] f show ?thesis by simp
  qed
qed

lemma playLoop_win:
  assumes "playLoop g k ns c pre = LoopDone g1 c1"
    and "processPlayAction g1 k (cardOf a) ns = Inr (g2, cutting, 1)"
  shows "playLoop g k ns c (pre @ a # rest) = LoopWon g2"
  using assms
proof (induction pre arbitrary: g c)
  case Nil
  then show ?case by simp
next
  case (Cons b pre)
  then show ?case
    by (auto split: sum.splits if_splits)
qed

subsection \<open>The draw phase\<close>

lemma handleDeckReshuffle_fields [simp]:
  "players (fst (handleDeckReshuffle rs g)) = players g"
  "currentTurn (fst (handleDeckReshuffle rs g)) = currentTurn g"
  "turnExpiresAt (fst (handleDeckReshuffle rs g)) = turnExpiresAt g"
  "waitTimeout (fst (handleDeckReshuffle rs g)) = waitTimeout g"
  by (simp_all add: handleDeckReshuffle_def Let_def)

lemma processDrawAction_Inr:
  assumes "getHand g k = Some h"
  shows "processDrawAction rs g k d
         = Inr (setHand ((fst (handleDeckReshuffle rs g))
                   \<lparr>deck := spliceLast (length d) (deck (fst (handleDeckReshuffle rs g)))\<rparr>)
                  k (h @ d),
                True, fst (snd (handleDeckReshuffle rs g)))"
  using assms
  by (cases "handleDeckReshuffle rs g")
    (auto simp: processDrawAction_def Let_def getHand_def handleDeckReshuffle_def
      split: if_splits)

lemma drawPhase_Inr:
  assumes "getHand g k = Some h"
  shows "\<exists>g' resh. drawPhase rs g k cards = Inr (g', True, resh)
           \<and> getHand g' k \<noteq> None \<and> currentTurn g' = currentTurn g
           \<and> turnExpiresAt g' = turnExpiresAt g \<and> waitTimeout g' = waitTimeout g"
  using assms
  by (auto simp: drawPhase_def Let_def processDrawAction_Inr[OF assms] getHand_setHand)

subsection \<open>Replenishing the draw pile\<close>

text \<open>
  C8. \<^verbatim>\<open>handleDeckReshuffle\<close> reshuffles exactly when the deck holds at most 5 cards
  and more than one card has been played; otherwise it changes nothing. When it does, only
  the last played card stays in \<^verbatim>\<open>playedCards\<close>, the other played cards, as
  \<^verbatim>\<open>reshufflePlayedCards\<close> returns them, go beneath the cards still in the deck (the
  end of the list is the top), and no card is gained or lost: with 4 cards in the deck and
  6 played, the deck has 9 cards afterwards and 1 card stays played. The hypothesis is
  what is asked of \<^verbatim>\<open>reshufflePlayedCards\<close>, which is defined elsewhere: called on
  an empty deck, it returns the cards it is given in some order.
\<close>

theorem reshuffle_policy:
  assumes "mset (reshufflePlayedCards [] (butlast (playedCards gameState)))
             = mset (butlast (playedCards gameState))"
  shows "(fst (snd (handleDeckReshuffle reshufflePlayedCards gameState))
            \<longleftrightarrow> length (deck gameState) \<le> 5 \<and> 1 < length (playedCards gameState))
       \<and> (\<not> fst (snd (handleDeckReshuffle reshufflePlayedCards gameState)) \<longrightarrow>
            fst (handleDeckReshuffle reshufflePlayedCards gameState) = gameState)
       \<and> (fst (snd (handleDeckReshuffle reshufflePlayedCards gameState)) \<longrightarrow>
            playedCards (fst (handleDeckReshuffle reshufflePlayedCards gameState))
              = [last (playedCards gameState)]
          \<and> deck (fst (handleDeckReshuffle reshufflePlayedCards gameState))
              = reshufflePlayedCards [] (butlast (playedCards gameState)) @ deck gameState
          \<and> mset (deck (fst (handleDeckReshuffle reshufflePlayedCards gameState)))
              + mset (playedCards (fst (handleDeckReshuffle reshufflePlayedCards gameState)))
              = mset (deck gameState) + mset (playedCards gameState)
          \<and> length (deck (fst (handleDeckReshuffle reshufflePlayedCards gameState)))
              + length (playedCards (fst (handleDeckReshuffle reshufflePlayedCards gameState)))
              = length (deck gameState) + length (playedCards gameState))
       \<and> (length (deck gameState) = 4 \<and> length (playedCards gameState) = 6 \<longrightarrow>
            length (deck (fst (handleDeckReshuffle reshufflePlayedCards gameState))) = 9
          \<and> length (playedCards (fst (handleDeckReshuffle reshufflePlayedCards gameState))) = 1)"
proof -
  let ?pc = "playedCards gameState"
  let ?sh = "reshufflePlayedCards [] (butlast ?pc)"
  have len: "length ?sh = length ?pc - 1"
    using mset_eq_length[OF assms] by simp
  have ms: "?pc \<noteq> [] \<Longrightarrow> mset ?sh + {#last ?pc#} = mset ?pc"
  proof -
    assume ne: "?pc \<noteq> []"
    have "mset (butlast ?pc @ [last ?pc]) = mset ?pc" using ne by simp
    then show ?thesis using assms by simp
  qed
  show ?thesis
  proof (cases "length (deck gameState) \<le> 5 \<and> 1 < length ?pc")
    case True
    then have ne: "?pc \<noteq> []" by auto
    show ?thesis
      using True len ms[OF ne]
      by (auto simp: handleDeckReshuffle_def minimumDeckSize_def Let_def)
  next
    case False
    then show ?thesis
      by (auto simp: handleDeckReshuffle_def minimumDeckSize_def Let_def)
  qed
qed

theorem reshuffle_policy_witness:
  "fst (snd (handleDeckReshuffle reverseUnder lowDeckGameState))
   \<and> length (deck (fst (handleDeckReshuffle reverseUnder lowDeckGameState))) = 9
   \<and> playedCards (fst (handleDeckReshuffle reverseUnder lowDeckGameState)) = [\<lparr>v = 4, s = ''spades''\<rparr>]"
  using reshuffle_policy[of reverseUnder lowDeckGameState]
  by (simp add: mock_defs)

subsection \<open>Notifications\<close>

lemma notifyMutation_snoc:
  "notifyMutation g (cs @ [c]) ns =
     (if kind c = ''DRAW'' then notifyMutation g cs ns
      else (notifyMutation g cs ns)\<lparr>currentCard := Some (cardOf c),
             chosenSuit := (if truthy ns then ns else None)\<rparr>)"
  by (simp add: notifyMutation_def)

lemma notifyMutation_char:
  "notifyMutation g cs ns =
     (case filter (\<lambda>c. kind c \<noteq> ''DRAW'') cs of
        [] \<Rightarrow> g
      | _ # _ \<Rightarrow> g\<lparr>currentCard := Some (cardOf (last (filter (\<lambda>c. kind c \<noteq> ''DRAW'') cs))),
                    chosenSuit := (if truthy ns then ns else None)\<rparr>)"
proof (induction cs rule: rev_induct)
  case Nil
  show ?case by (simp add: notifyMutation_def)
next
  case (snoc c cs)
  show ?case
    by (simp add: notifyMutation_snoc snoc.IH split: list.splits)
qed

lemma notifyMutation_idem:
  "notifyMutation (notifyMutation g cs ns) cs ns = notifyMutation g cs ns"
  by (simp add: notifyMutation_char[of _ cs ns] split: list.splits)

lemma notifyMutation_fields [simp]:
  "activePenaltyCount (notifyMutation g cs ns) = activePenaltyCount g"
  "players (notifyMutation g cs ns) = players g"
  "deck (notifyMutation g cs ns) = deck g"
  "playedCards (notifyMutation g cs ns) = playedCards g"
  by (simp_all add: notifyMutation_char[of _ cs ns] split: list.splits)

lemma notifyPlayers_result:
  "notifyPlayers clients f t cs ns r g pids = (g', es) \<Longrightarrow>
     g' = (if pids = [] then g else notifyMutation g cs ns)
     \<and> (\<forall>w md. SendMove w md \<in> set es \<longrightarrow> moveGameState md = notifyMutation g cs ns)
     \<and> (\<forall>e \<in> set es. \<exists>w md. e = SendMove w md)"
proof (induction pids arbitrary: g g' es)
  case Nil
  then show ?case by simp
next
  case (Cons p pids)
  obtain g2 es2 where rec:
    "notifyPlayers clients f t cs ns r (notifyMutation g cs ns) pids = (g2, es2)"
    by (cases "notifyPlayers clients f t cs ns r (notifyMutation g cs ns) pids") auto
  from Cons.IH[OF rec] have ih:
    "g2 = notifyMutation g cs ns"
    "\<forall>w md. SendMove w md \<in> set es2 \<longrightarrow> moveGameState md = notifyMutation g cs ns"
    "\<forall>e \<in> set es2. \<exists>w md. e = SendMove w md"
    by (simp_all add: notifyMutation_idem)
  from Cons.prems rec have g': "g' = g2"
    and es: "es = (case clients p of None \<Rightarrow> []
                   | Some player \<Rightarrow>
                       [SendMove player
                          \<lparr>moveFrom = f, moveTo = t, moveCards = moveDataCards cs,
                           moveNewSuit = ns, moveGameState = notifyMutation g cs ns,
                           moveReshuffled = r\<rparr>]) @ es2"
    by (simp_all add: Let_def)
  show ?case using ih g' es by (auto split: option.splits)
qed

lemma notifyPlayers_exact:
  "notifyPlayers clients f t cs ns r g pids
   = ((if pids = [] then g else notifyMutation g cs ns),
      concat (map (\<lambda>p. case clients p of
                          None \<Rightarrow> []
                        | Some player \<Rightarrow>
                            [SendMove player
                               \<lparr>moveFrom = f, moveTo = t, moveCards = moveDataCards cs,
                                moveNewSuit = ns, moveGameState = notifyMutation g cs ns,
                                moveReshuffled = r\<rparr>]) pids))"
proof (induction pids arbitrary: g)
  case Nil
  show ?case by simp
next
  case (Cons p pids)
  show ?case
    by (simp add: Cons.IH Let_def notifyMutation_idem cong: option.case_cong)
qed

subsection \<open>The penalty count is reset at the end of a completed move\<close>

text \<open>
  C10. When a call of \<^verbatim>\<open>handleMove\<close> runs to its end (no win, no cutting card),
  the session it leaves in the store has \<^verbatim>\<open>activePenaltyCount = 0\<close>: a count
  recorded during the turn does not reach the next player's turn. The reset comes after
  the notifications: the effects are the call of \<^verbatim>\<open>startTimeout\<close> and one
  \<^verbatim>\<open>MOVE\<close> message for each connected player, in key order, and every message
  carries the stored session except for this count, which the message shows as the play
  loop left it. In the witness the 2 of Clubs is played: both messages show a count of 2,
  the store 0.
\<close>

theorem penalty_count_reset:
  assumes "exit (handleMove reshufflePlayedCards now PLAY_TIMEOUT_DURATION clients gameStates
                   ws gameId' from' to' cards newSuit) = Completed"
  shows "\<exists>gameState0 gameState2 reshuffled gameState3 g.
           gameStates gameId' = Some gameState0
         \<and> drawPhase reshufflePlayedCards (gameState0\<lparr>waitTimeout := None\<rparr>) from' cards
             = Inr (gameState2, True, reshuffled)
         \<and> playLoop gameState2 from' newSuit False (filter (\<lambda>c. kind c = ''PLAY'') cards)
             = LoopDone gameState3 False
         \<and> gameStatesAfter (handleMove reshufflePlayedCards now PLAY_TIMEOUT_DURATION clients
                  gameStates ws gameId' from' to' cards newSuit) gameId' = Some g
         \<and> activePenaltyCount g = 0
         \<and> effects (handleMove reshufflePlayedCards now PLAY_TIMEOUT_DURATION clients
                      gameStates ws gameId' from' to' cards newSuit)
             = StartTimeout gameId'
               # concat (map (\<lambda>playerId. case clients playerId of
                                 None \<Rightarrow> []
                               | Some player \<Rightarrow>
                                   [SendMove player
                                      \<lparr>moveFrom = from', moveTo = to',
                                       moveCards = moveDataCards cards, moveNewSuit = newSuit,
                                       moveGameState =
                                         g\<lparr>activePenaltyCount :=
                                              activePenaltyCount gameState3\<rparr>,
                                       moveReshuffled = reshuffled\<rparr>])
                           (map fst (players gameState3)))
         \<and> (\<forall>w md. SendMove w md \<in> set (effects (handleMove reshufflePlayedCards now
                          PLAY_TIMEOUT_DURATION clients gameStates ws gameId' from' to' cards
                          newSuit))
                  \<longrightarrow> g = (moveGameState md)\<lparr>activePenaltyCount := 0\<rparr>
                      \<and> activePenaltyCount (moveGameState md)
                          = activePenaltyCount gameState3)"
proof -
  let ?r = "handleMove reshufflePlayedCards now PLAY_TIMEOUT_DURATION clients gameStates
              ws gameId' from' to' cards newSuit"
  from assms obtain gs0 h where gs0: "gameStates gameId' = Some gs0"
    and h: "getHand gs0 from' = Some h"
    by (auto simp: handleMove_def split: option.splits)
  have h1: "getHand (gs0\<lparr>waitTimeout := None\<rparr>) from' = Some h"
    using h by (simp add: getHand_def)
  from drawPhase_Inr[OF h1, of reshufflePlayedCards cards] obtain g2 resh where
    dp: "drawPhase reshufflePlayedCards (gs0\<lparr>waitTimeout := None\<rparr>) from' cards
           = Inr (g2, True, resh)"
    and h2: "getHand g2 from' \<noteq> None"
    by blast
  from assms gs0 h dp obtain g3 where
    pl: "playLoop g2 from' newSuit False (filter (\<lambda>c. kind c = ''PLAY'') cards)
           = LoopDone g3 False"
    by (auto simp: handleMove_def Let_def
        split: LoopResult.splits if_splits option.splits)
  from h2 obtain hh where hh: "getHand g2 from' = Some hh" by auto
  from playLoop_keeps[OF hh disjI1[OF pl]]
  have "getHand g3 from' \<noteq> None" by simp
  then have pne: "players g3 \<noteq> []" by (auto simp: getHand_def)
  let ?g4 = "g3\<lparr>currentTurn := to', turnExpiresAt := now + PLAY_TIMEOUT_DURATION\<rparr>"
  let ?g5 = "notifyMutation ?g4 cards newSuit"
  let ?msg = "\<lambda>snapshot playerId. case clients playerId of
                 None \<Rightarrow> []
               | Some player \<Rightarrow>
                   [SendMove player
                      \<lparr>moveFrom = from', moveTo = to', moveCards = moveDataCards cards,
                       moveNewSuit = newSuit, moveGameState = snapshot,
                       moveReshuffled = resh\<rparr>]"
  have np: "notifyPlayers clients from' to' cards newSuit resh ?g4 (map fst (players ?g4))
              = (?g5, concat (map (?msg ?g5) (map fst (players g3))))"
    using pne by (simp add: notifyPlayers_exact)
  let ?g = "?g5\<lparr>activePenaltyCount := 0\<rparr>"
  have fin: "(if activePenaltyCount ?g5 \<noteq> 0 then ?g5\<lparr>activePenaltyCount := 0\<rparr> else ?g5)
             = ?g"
    by simp
  have res0: "?r = \<lparr>gameStatesAfter = gameStates(gameId' \<mapsto>
                       (if activePenaltyCount ?g5 \<noteq> 0
                        then ?g5\<lparr>activePenaltyCount := 0\<rparr> else ?g5)),
                     effects = StartTimeout gameId'
                               # concat (map (?msg ?g5) (map fst (players g3))),
                     exit = Completed\<rparr>"
    using gs0 h dp pl np by (simp add: handleMove_def Let_def)
  have res: "?r = \<lparr>gameStatesAfter = gameStates(gameId' \<mapsto> ?g),
                    effects = StartTimeout gameId'
                              # concat (map (?msg ?g5) (map fst (players g3))),
                    exit = Completed\<rparr>"
    using res0 by (simp only: fin)
  have snap: "?g\<lparr>activePenaltyCount := activePenaltyCount g3\<rparr> = ?g5"
    by simp
  have c5: "activePenaltyCount ?g5 = activePenaltyCount g3" by simp
  have each: "\<forall>w md. SendMove w md \<in> set (effects ?r) \<longrightarrow> moveGameState md = ?g5"
    unfolding res by (auto split: option.splits)
  have e1: "gameStatesAfter ?r gameId' = Some ?g" unfolding res by simp
  have e2: "activePenaltyCount ?g = 0" by simp
  have e3: "effects ?r = StartTimeout gameId'
              # concat (map (?msg (?g\<lparr>activePenaltyCount := activePenaltyCount g3\<rparr>))
                          (map fst (players g3)))"
    unfolding snap unfolding res by simp
  have e4: "\<forall>w md. SendMove w md \<in> set (effects ?r)
              \<longrightarrow> ?g = (moveGameState md)\<lparr>activePenaltyCount := 0\<rparr>
                  \<and> activePenaltyCount (moveGameState md) = activePenaltyCount g3"
    using each c5 by metis
  from gs0 dp pl e1 e2 e3 e4 show ?thesis by blast
qed

theorem penalty_count_reset_witness:
  "exit (mockMove [\<lparr>v = 2, s = ''clubs'', kind = ''PLAY''\<rparr>] None) = Completed
   \<and> (\<exists>g. gameStatesAfter (mockMove [\<lparr>v = 2, s = ''clubs'', kind = ''PLAY''\<rparr>] None)
             ''test-game-id'' = Some g
          \<and> activePenaltyCount g = 0
          \<and> (\<forall>w md. SendMove w md
                       \<in> set (effects (mockMove [\<lparr>v = 2, s = ''clubs'', kind = ''PLAY''\<rparr>] None))
                \<longrightarrow> g = (moveGameState md)\<lparr>activePenaltyCount := 0\<rparr>))
   \<and> map (\<lambda>e. case e of SendMove w md \<Rightarrow> activePenaltyCount (moveGameState md) | _ \<Rightarrow> 0)
        (effects (mockMove [\<lparr>v = 2, s = ''clubs'', kind = ''PLAY''\<rparr>] None)) = [0, 2, 2]"
proof -
  have c: "exit (mockMove [\<lparr>v = 2, s = ''clubs'', kind = ''PLAY''\<rparr>] None) = Completed"
    by (simp add: mock_defs handler_defs)
  have m: "map (\<lambda>e. case e of SendMove w md \<Rightarrow> activePenaltyCount (moveGameState md) | _ \<Rightarrow> 0)
        (effects (mockMove [\<lparr>v = 2, s = ''clubs'', kind = ''PLAY''\<rparr>] None)) = [0, 2, 2]"
    by (simp add: mock_defs handler_defs)
  from penalty_count_reset[of reverseUnder 0 30000 mockClients mockGameStates 1
        "''test-game-id''" "''player1''" "''player2''"
        "[\<lparr>v = 2, s = ''clubs'', kind = ''PLAY''\<rparr>]" None] c
  have "\<exists>g. gameStatesAfter (mockMove [\<lparr>v = 2, s = ''clubs'', kind = ''PLAY''\<rparr>] None)
             ''test-game-id'' = Some g
          \<and> activePenaltyCount g = 0
          \<and> (\<forall>w md. SendMove w md
                       \<in> set (effects (mockMove [\<lparr>v = 2, s = ''clubs'', kind = ''PLAY''\<rparr>] None))
                \<longrightarrow> g = (moveGameState md)\<lparr>activePenaltyCount := 0\<rparr>)"
    unfolding mockMove_def by blast
  with c m show ?thesis by blast
qed

subsection \<open>One card left ends the game\<close>

text \<open>
  C9. In the play phase, when removing the played card leaves exactly one card in the
  actor's hand, \<^verbatim>\<open>handleMove\<close> stops there: its only effect is the call of
  \<^verbatim>\<open>endGame\<close> with the actor as winner and the reason \<^verbatim>\<open>NO_CARDS\<close>, the
  session is left as that play made it, so the play sub-actions after it are not
  processed, the turn is not handed over and no timeout is started
  (\<^verbatim>\<open>currentTurn\<close> and \<^verbatim>\<open>turnExpiresAt\<close> are as before the call). In the witness
  \<^verbatim>\<open>player2\<close> holds two cards and submits both: the first play wins and the second
  card stays in the hand.
\<close>

theorem win_with_one_card_left:
  assumes "gameStates gameId' = Some gameState0"
    and "getHand gameState0 from' \<noteq> None"
    and "drawPhase reshufflePlayedCards (gameState0\<lparr>waitTimeout := None\<rparr>) from' cards
           = Inr (gameState2, True, reshuffled)"
    and "filter (\<lambda>c. kind c = ''PLAY'') cards = before @ action # rest"
    and "playLoop gameState2 from' newSuit False before = LoopDone gameState3 cutting"
    and "getHand gameState3 from' = Some hand"
    and "length (filter (\<lambda>c. \<not> (v c = v action \<and> s c = s action)) hand) = 1"
  shows "\<exists>gameState4 isCuttingCard.
           processPlayAction gameState3 from' (cardOf action) newSuit
             = Inr (gameState4, isCuttingCard, 1)
         \<and> handleMove reshufflePlayedCards now PLAY_TIMEOUT_DURATION clients gameStates ws
              gameId' from' to' cards newSuit
             = \<lparr>gameStatesAfter = gameStates(gameId' \<mapsto> gameState4),
                effects = [EndGame gameId' from'
                             (find (\<lambda>id'. id' \<noteq> from') (map fst (players gameState4)))
                             ''NO_CARDS'' (from', to', cards, newSuit)],
                exit = NoCards\<rparr>
         \<and> playedCards gameState4 = playedCards gameState3 @ [cardOf action]
         \<and> currentTurn gameState4 = currentTurn gameState0
         \<and> turnExpiresAt gameState4 = turnExpiresAt gameState0"
proof -
  from assms(2) obtain h0 where h0: "getHand gameState0 from' = Some h0" by auto
  then have h1: "getHand (gameState0\<lparr>waitTimeout := None\<rparr>) from' = Some h0"
    by (simp add: getHand_def)
  from drawPhase_Inr[OF h1, of reshufflePlayedCards cards] assms(3)
  have k2: "getHand gameState2 from' \<noteq> None"
    "currentTurn gameState2 = currentTurn gameState0"
    "turnExpiresAt gameState2 = turnExpiresAt gameState0"
    by auto
  then obtain h2 where h2: "getHand gameState2 from' = Some h2" by auto
  from playLoop_keeps[OF h2 disjI1[OF assms(5)]]
  have k3: "currentTurn gameState3 = currentTurn gameState2"
    "turnExpiresAt gameState3 = turnExpiresAt gameState2"
    by auto
  from processPlayAction_Inr[OF assms(6), of "cardOf action" newSuit] assms(7)
  obtain g4 ic where
    p: "processPlayAction gameState3 from' (cardOf action) newSuit = Inr (g4, ic, 1)"
    and f4: "playedCards g4 = playedCards gameState3 @ [cardOf action]"
      "currentTurn g4 = currentTurn gameState3"
      "turnExpiresAt g4 = turnExpiresAt gameState3"
    by (auto simp: cardOf_def)
  have w: "playLoop gameState2 from' newSuit False
             (filter (\<lambda>c. kind c = ''PLAY'') cards) = LoopWon g4"
    unfolding assms(4) using assms(5) p by (rule playLoop_win)
  have "handleMove reshufflePlayedCards now PLAY_TIMEOUT_DURATION clients gameStates ws
          gameId' from' to' cards newSuit
        = \<lparr>gameStatesAfter = gameStates(gameId' \<mapsto> g4),
           effects = [EndGame gameId' from'
                        (find (\<lambda>id'. id' \<noteq> from') (map fst (players g4)))
                        ''NO_CARDS'' (from', to', cards, newSuit)],
           exit = NoCards\<rparr>"
    using assms(1) h0 assms(3) w by (simp add: handleMove_def Let_def)
  with p f4 k2 k3 show ?thesis by auto
qed

theorem win_with_one_card_left_witness:
  "handleMove reverseUnder 0 30000 mockClients mockGameStates 2 ''test-game-id''
     ''player2'' ''player1''
     [\<lparr>v = 9, s = ''diamonds'', kind = ''PLAY''\<rparr>, \<lparr>v = 11, s = ''hearts'', kind = ''PLAY''\<rparr>]
     None
   = \<lparr>gameStatesAfter = mockGameStates(''test-game-id'' \<mapsto>
         mockGameState
           \<lparr>players := [(''player1'', [\<lparr>v = 5, s = ''hearts''\<rparr>, \<lparr>v = 7, s = ''spades''\<rparr>,
                                       \<lparr>v = 2, s = ''clubs''\<rparr>]),
                        (''player2'', [\<lparr>v = 11, s = ''hearts''\<rparr>])],
            playedCards := [\<lparr>v = 8, s = ''diamonds''\<rparr>, \<lparr>v = 9, s = ''diamonds''\<rparr>],
            currentCard := Some \<lparr>v = 9, s = ''diamonds''\<rparr>\<rparr>),
      effects = [EndGame ''test-game-id'' ''player2'' (Some ''player1'') ''NO_CARDS''
                   (''player2'', ''player1'',
                    [\<lparr>v = 9, s = ''diamonds'', kind = ''PLAY''\<rparr>,
                     \<lparr>v = 11, s = ''hearts'', kind = ''PLAY''\<rparr>], None)],
      exit = NoCards\<rparr>"
proof -
  have a1: "mockGameStates ''test-game-id'' = Some mockGameState"
    by (simp add: mockGameStates_def)
  have a2: "getHand mockGameState ''player2'' \<noteq> None"
    by (simp add: getHand_def mockGameState_def)
  have a3: "drawPhase reverseUnder (mockGameState\<lparr>waitTimeout := None\<rparr>) ''player2''
              [\<lparr>v = 9, s = ''diamonds'', kind = ''PLAY''\<rparr>,
               \<lparr>v = 11, s = ''hearts'', kind = ''PLAY''\<rparr>]
            = Inr (mockGameState, True, False)"
    by (simp add: drawPhase_def mockGameState_def)
  have a4: "filter (\<lambda>c. kind c = ''PLAY'')
              [\<lparr>v = 9, s = ''diamonds'', kind = ''PLAY''\<rparr>,
               \<lparr>v = 11, s = ''hearts'', kind = ''PLAY''\<rparr>]
            = [] @ \<lparr>v = 9, s = ''diamonds'', kind = ''PLAY''\<rparr>
                # [\<lparr>v = 11, s = ''hearts'', kind = ''PLAY''\<rparr>]"
    by simp
  have a5: "playLoop mockGameState ''player2'' None False [] = LoopDone mockGameState False"
    by simp
  have a6: "getHand mockGameState ''player2''
              = Some [\<lparr>v = 9, s = ''diamonds''\<rparr>, \<lparr>v = 11, s = ''hearts''\<rparr>]"
    by (simp add: getHand_def mockGameState_def)
  have a7: "length (filter (\<lambda>c. \<not> (v c = v \<lparr>v = 9, s = ''diamonds'', kind = ''PLAY''\<rparr>
                                      \<and> s c = s \<lparr>v = 9, s = ''diamonds'', kind = ''PLAY''\<rparr>))
                      [\<lparr>v = 9, s = ''diamonds''\<rparr>, \<lparr>v = 11, s = ''hearts''\<rparr>]) = 1"
    by simp
  from win_with_one_card_left[where gameStates = mockGameStates
        and gameId' = "''test-game-id''" and from' = "''player2''" and now = 0
        and PLAY_TIMEOUT_DURATION = 30000 and clients = mockClients and ws = 2
        and to' = "''player1''", OF a1 a2 a3 a4 a5 a6 a7]
  show ?thesis
    by (auto simp: processPlayAction_def processPenaltyCard_def Let_def getHand_def
        setHand_def cardOf_def truthy_def isPenaltyCardValue_def PENALTY_CARDS_def
        mockGameState_def)
qed

subsection \<open>The session a call leaves\<close>

lemma endByCuttingCard_effect:
  "endByCuttingCard g gid ad = Some e \<Longrightarrow> \<exists>w l. e = EndGame gid w l ''CUTTING_CARD'' ad"
  by (auto simp: endByCuttingCard_def Let_def split: list.splits prod.splits)

lemma handleMove_final_state:
  assumes "gameStates gameId' = Some gs0" and "getHand gs0 from' = Some h0"
  shows "\<exists>g2 resh gl gf.
           drawPhase rs (gs0\<lparr>waitTimeout := None\<rparr>) from' cards = Inr (g2, True, resh)
         \<and> (playLoop g2 from' ns False (filter (\<lambda>c. kind c = ''PLAY'') cards) = LoopWon gl
            \<or> (\<exists>c. playLoop g2 from' ns False (filter (\<lambda>c. kind c = ''PLAY'') cards)
                       = LoopDone gl c))
         \<and> gameStatesAfter (handleMove rs now dur clients gameStates ws gameId' from' to'
                               cards ns) gameId' = Some gf
         \<and> players gf = players gl \<and> deck gf = deck gl \<and> playedCards gf = playedCards gl
         \<and> (\<forall>w m. SendError w m \<notin> set (effects (handleMove rs now dur clients gameStates ws
                                                  gameId' from' to' cards ns)))"
proof -
  let ?r = "handleMove rs now dur clients gameStates ws gameId' from' to' cards ns"
  let ?plays = "filter (\<lambda>c. kind c = ''PLAY'') cards"
  have h1: "getHand (gs0\<lparr>waitTimeout := None\<rparr>) from' = Some h0"
    using assms(2) by (simp add: getHand_def)
  from drawPhase_Inr[OF h1, of rs cards] obtain g2 resh where
    dp: "drawPhase rs (gs0\<lparr>waitTimeout := None\<rparr>) from' cards = Inr (g2, True, resh)"
    and h2: "getHand g2 from' \<noteq> None"
    by blast
  from h2 obtain hh where hh: "getHand g2 from' = Some hh" by auto
  show ?thesis
  proof (cases "playLoop g2 from' ns False ?plays")
    case (LoopThrew g)
    with playLoop_not_thrown[OF hh] show ?thesis by blast
  next
    case (LoopWon gl)
    have "gameStatesAfter ?r gameId' = Some gl
          \<and> (\<forall>w m. SendError w m \<notin> set (effects ?r))"
      using assms dp LoopWon by (simp add: handleMove_def Let_def)
    with dp LoopWon show ?thesis by blast
  next
    case (LoopDone gl c)
    show ?thesis
    proof (cases c)
      case True
      have "gameStatesAfter ?r gameId' = Some gl
            \<and> (\<forall>w m. SendError w m \<notin> set (effects ?r))"
        using assms dp LoopDone True
        by (auto simp: handleMove_def Let_def split: option.splits
            dest: endByCuttingCard_effect)
      with dp LoopDone show ?thesis by blast
    next
      case False
      let ?g4 = "gl\<lparr>currentTurn := to', turnExpiresAt := now + dur\<rparr>"
      obtain g5 sends where np:
        "notifyPlayers clients from' to' cards ns resh ?g4 (map fst (players ?g4))
           = (g5, sends)"
        by (cases "notifyPlayers clients from' to' cards ns resh ?g4 (map fst (players ?g4))")
          auto
      from notifyPlayers_result[OF np] have
        g5: "g5 = (if map fst (players ?g4) = [] then ?g4 else notifyMutation ?g4 cards ns)"
        and es: "\<forall>e \<in> set sends. \<exists>w md. e = SendMove w md"
        by auto
      let ?gf = "if activePenaltyCount g5 \<noteq> 0 then g5\<lparr>activePenaltyCount := 0\<rparr> else g5"
      have res: "?r = \<lparr>gameStatesAfter = gameStates(gameId' \<mapsto> ?gf),
                        effects = StartTimeout gameId' # sends, exit = Completed\<rparr>"
        using assms dp LoopDone False np by (simp add: handleMove_def Let_def)
      have f: "players ?gf = players gl \<and> deck ?gf = deck gl
               \<and> playedCards ?gf = playedCards gl"
        by (simp add: g5)
      have "\<forall>w m. SendError w m \<notin> set (effects ?r)"
        unfolding res using es by auto
      moreover have "gameStatesAfter ?r gameId' = Some ?gf" unfolding res by simp
      ultimately show ?thesis using dp LoopDone f by blast
    qed
  qed
qed

subsection \<open>Conservation of the cards\<close>

lemma card_eq_iff: "(c :: CardType) = a \<longleftrightarrow> v c = v a \<and> s c = s a"
  by auto

lemma filter_out_once:
  assumes "count (mset h) (a :: CardType) = 1"
  shows "mset (filter (\<lambda>c. \<not> (v c = v a \<and> s c = s a)) h) + {#a#} = mset h"
proof -
  have "filter (\<lambda>c. \<not> (v c = v a \<and> s c = s a)) h = filter (\<lambda>c. c \<noteq> a) h"
    by (rule filter_cong) (auto simp: card_eq_iff)
  moreover have "mset (filter (\<lambda>c. c \<noteq> a) h) + {#a#} = mset h"
    using assms by (intro multiset_eqI) (auto simp: count_mset)
  ultimately show ?thesis by simp
qed

lemma filter_out_other:
  "b \<noteq> (a :: CardType) \<Longrightarrow>
     count (mset (filter (\<lambda>c. \<not> (v c = v a \<and> s c = s a)) h)) b = count (mset h) b"
  by (induction h) (auto simp: card_eq_iff)

lemma processPlayAction_conserves:
  assumes "getHand g k = Some h" and "count (mset h) a = 1"
    and "processPlayAction g k a ns = Inr (g', cutting, n)"
  shows "allCards g' = allCards g"
proof -
  let ?h' = "filter (\<lambda>c. \<not> (v c = v a \<and> s c = s a)) h"
  from processPlayAction_Inr[OF assms(1), of a ns] assms(3)
  have f: "players g' = setHandIn (players g) k ?h'" "deck g' = deck g"
    "playedCards g' = playedCards g @ [a]"
    by auto
  from assms(1) have "map_of (players g) k = Some h" by (simp add: getHand_def)
  from allHands_setHandIn[OF this, of ?h']
  have e1: "allHands (setHandIn (players g) k ?h') + mset h
              = allHands (players g) + mset ?h'" .
  have e2: "mset ?h' + {#a#} = mset h" using assms(2) by (rule filter_out_once)
  have "allHands (setHandIn (players g) k ?h') + {#a#} + mset ?h'
          = allHands (setHandIn (players g) k ?h') + (mset ?h' + {#a#})"
    by (simp only: ac_simps)
  also have "\<dots> = allHands (setHandIn (players g) k ?h') + mset h"
    by (simp only: e2)
  also have "\<dots> = allHands (players g) + mset ?h'" by (rule e1)
  finally have "allHands (setHandIn (players g) k ?h') + {#a#} = allHands (players g)"
    by (simp only: add_right_cancel)
  then show ?thesis by (simp add: allCards_def f)
qed

lemma playLoop_conserves:
  assumes "getHand g k = Some h"
    and "distinct (map cardOf as)"
    and "\<forall>a \<in> set as. count (mset h) (cardOf a) = 1"
    and "playLoop g k ns c as = LoopDone g' c' \<or> playLoop g k ns c as = LoopWon g'"
  shows "allCards g' = allCards g"
  using assms
proof (induction as arbitrary: g h c)
  case Nil
  then show ?case by auto
next
  case (Cons a as)
  from processPlayAction_Inr[OF Cons.prems(1), of "cardOf a" ns] obtain g1 cutting n where
    p: "processPlayAction g k (cardOf a) ns = Inr (g1, cutting, n)" by blast
  from Cons.prems(3) have once: "count (mset h) (cardOf a) = 1" by simp
  have c1: "allCards g1 = allCards g"
    using Cons.prems(1) once p by (rule processPlayAction_conserves)
  let ?h1 = "filter (\<lambda>c. \<not> (v c = v (cardOf a) \<and> s c = s (cardOf a))) h"
  have h1: "getHand g1 k = Some ?h1"
    using Cons.prems(1) p by (rule processPlayAction_getHand)
  show ?case
  proof (cases "n = 1")
    case True
    with Cons.prems(4) p have "g' = g1" by simp
    with c1 show ?thesis by simp
  next
    case False
    with Cons.prems(4) p have loop:
      "playLoop g1 k ns (c \<or> cutting) as = LoopDone g' c'
       \<or> playLoop g1 k ns (c \<or> cutting) as = LoopWon g'"
      by simp
    have d: "distinct (map cardOf as)" using Cons.prems(2) by simp
    have "\<forall>b \<in> set as. count (mset ?h1) (cardOf b) = 1"
    proof
      fix b assume b: "b \<in> set as"
      then have "cardOf b \<in> set (map cardOf as)" by simp
      moreover have "cardOf a \<notin> set (map cardOf as)" using Cons.prems(2) by simp
      ultimately have "cardOf b \<noteq> cardOf a" by metis
      from filter_out_other[OF this, of h] Cons.prems(3) b
      show "count (mset ?h1) (cardOf b) = 1" by simp
    qed
    from Cons.IH[OF h1 d this loop] c1 show ?thesis by simp
  qed
qed

lemma list_all_zip_eq:
  "length xs = length ys \<Longrightarrow>
     list_all (\<lambda>(x, y). v y = v x \<and> s y = s x) (zip xs ys) \<Longrightarrow> xs = (ys :: CardType list)"
  by (induction xs ys rule: list_induct2) auto

lemma validateDrawnCards_top:
  assumes "validateDrawnCards d drawn" and "drawn \<noteq> []"
  shows "spliceLast (length drawn) d @ drawn = d"
proof -
  from assms have le: "length drawn \<le> length d"
    by (simp add: validateDrawnCards_def split: if_splits)
  let ?top = "drop (length d - length drawn) d"
  have len: "length drawn = length ?top" using le by simp
  from assms le have "list_all (\<lambda>(x, y). v y = v x \<and> s y = s x) (zip drawn ?top)"
    by (simp add: validateDrawnCards_def sliceLast_def Let_def)
  with len have eq: "drawn = ?top" by (rule list_all_zip_eq)
  from assms(2) have "spliceLast (length drawn) d = take (length d - length drawn) d"
    by (simp add: spliceLast_def)
  moreover have "take (length d - length drawn) d @ ?top = d" by simp
  ultimately show ?thesis by (metis eq)
qed

lemma handleDeckReshuffle_conserves:
  assumes "mset (rs [] (butlast (playedCards g))) = mset (butlast (playedCards g))"
  shows "allCards (fst (handleDeckReshuffle rs g)) = allCards g"
proof (cases "length (deck g) \<le> 5 \<and> 1 < length (playedCards g)")
  case True
  then have "playedCards g \<noteq> []" by auto
  then have "mset (butlast (playedCards g) @ [last (playedCards g)]) = mset (playedCards g)"
    by simp
  then have "mset (butlast (playedCards g)) + {#last (playedCards g)#} = mset (playedCards g)"
    by simp
  with True assms show ?thesis
    by (simp add: handleDeckReshuffle_def minimumDeckSize_def Let_def allCards_def)
next
  case False
  then show ?thesis by (auto simp: handleDeckReshuffle_def minimumDeckSize_def)
qed

lemma handleDeckReshuffle_waitTimeout:
  "deck (fst (handleDeckReshuffle rs (g\<lparr>waitTimeout := x\<rparr>)))
     = deck (fst (handleDeckReshuffle rs g))"
  by (simp add: handleDeckReshuffle_def Let_def)

lemma allCards_waitTimeout [simp]: "allCards (g\<lparr>waitTimeout := x\<rparr>) = allCards g"
  by (simp add: allCards_def)

lemma drawPhase_conserves:
  assumes "getHand g k = Some h"
    and "mset (rs [] (butlast (playedCards g))) = mset (butlast (playedCards g))"
    and "filter (\<lambda>c. kind c = ''DRAW'') cards \<noteq> [] \<longrightarrow>
           validateDrawnCards (deck (fst (handleDeckReshuffle rs g)))
             (map cardOf (filter (\<lambda>c. kind c = ''DRAW'') cards))"
    and "drawPhase rs g k cards = Inr (g', ok, resh)"
  shows "allCards g' = allCards g
         \<and> getHand g' k = Some (h @ map cardOf (filter (\<lambda>c. kind c = ''DRAW'') cards))"
proof (cases "filter (\<lambda>c. kind c = ''DRAW'') cards = []")
  case True
  with assms(1,4) show ?thesis by (simp add: drawPhase_def)
next
  case False
  let ?d = "map cardOf (filter (\<lambda>c. kind c = ''DRAW'') cards)"
  let ?g1 = "fst (handleDeckReshuffle rs g)"
  from False have dne: "?d \<noteq> []" by simp
  from False assms(3) have val: "validateDrawnCards (deck ?g1) ?d" by simp
  from False assms(4) processDrawAction_Inr[OF assms(1), of rs ?d]
  have g': "g' = setHand (?g1\<lparr>deck := spliceLast (length ?d) (deck ?g1)\<rparr>) k (h @ ?d)"
    by (simp add: drawPhase_def Let_def)
  from assms(1) have "map_of (players g) k = Some h" by (simp add: getHand_def)
  from allHands_setHandIn[OF this, of "h @ ?d"]
  have "allHands (setHandIn (players g) k (h @ ?d)) + mset h
          = (allHands (players g) + mset ?d) + mset h"
    by (simp only: mset_append ac_simps)
  then have e1: "allHands (setHandIn (players g) k (h @ ?d)) = allHands (players g) + mset ?d"
    by (simp only: add_right_cancel)
  from validateDrawnCards_top[OF val dne]
  have "mset (spliceLast (length ?d) (deck ?g1) @ ?d) = mset (deck ?g1)" by simp
  then have e2: "mset (spliceLast (length ?d) (deck ?g1)) + mset ?d = mset (deck ?g1)"
    by simp
  have "allCards g' = allHands (players g) + (mset (spliceLast (length ?d) (deck ?g1)) + mset ?d)
                      + mset (playedCards ?g1)"
    unfolding g' by (simp add: allCards_def e1 ac_simps)
  also have "\<dots> = allCards ?g1" by (simp only: e2) (simp add: allCards_def)
  also have "\<dots> = allCards g" using assms(2) by (rule handleDeckReshuffle_conserves)
  finally have "allCards g' = allCards g" .
  moreover have "getHand g' k = Some (h @ ?d)" by (simp add: g' getHand_setHand)
  ultimately show ?thesis by simp
qed

text \<open>
  C2 as the claim states it fails in both cases it names. \<^verbatim>\<open>player1\<close> plays the
  9 of Diamonds, which is not in the hand: the move completes and the session has 10
  cards instead of 9. With two copies of the 5 of Hearts in the hand, playing it removes
  both and discards one: 9 cards instead of 10.
\<close>

theorem conservation_counterexample:
  "exit (mockMove [\<lparr>v = 9, s = ''diamonds'', kind = ''PLAY''\<rparr>] None) = Completed
   \<and> getHand mockGameState ''player1''
       = Some [\<lparr>v = 5, s = ''hearts''\<rparr>, \<lparr>v = 7, s = ''spades''\<rparr>, \<lparr>v = 2, s = ''clubs''\<rparr>]
   \<and> size (allCards mockGameState) = 9
   \<and> map_option (\<lambda>g. size (allCards g))
        (gameStatesAfter (mockMove [\<lparr>v = 9, s = ''diamonds'', kind = ''PLAY''\<rparr>] None)
           ''test-game-id'') = Some 10
   \<and> exit (handleMove reverseUnder 0 30000 mockClients
              [''test-game-id'' \<mapsto> mockGameState
                 \<lparr>players := [(''player1'', [\<lparr>v = 5, s = ''hearts''\<rparr>, \<lparr>v = 5, s = ''hearts''\<rparr>,
                                             \<lparr>v = 7, s = ''spades''\<rparr>, \<lparr>v = 2, s = ''clubs''\<rparr>]),
                              (''player2'', [\<lparr>v = 9, s = ''diamonds''\<rparr>,
                                             \<lparr>v = 11, s = ''hearts''\<rparr>])]\<rparr>]
              1 ''test-game-id'' ''player1'' ''player2''
              [\<lparr>v = 5, s = ''hearts'', kind = ''PLAY''\<rparr>] None) = Completed
   \<and> size (allCards (mockGameState
                 \<lparr>players := [(''player1'', [\<lparr>v = 5, s = ''hearts''\<rparr>, \<lparr>v = 5, s = ''hearts''\<rparr>,
                                             \<lparr>v = 7, s = ''spades''\<rparr>, \<lparr>v = 2, s = ''clubs''\<rparr>]),
                              (''player2'', [\<lparr>v = 9, s = ''diamonds''\<rparr>,
                                             \<lparr>v = 11, s = ''hearts''\<rparr>])]\<rparr>))
       = 10
   \<and> map_option (\<lambda>g. size (allCards g))
        (gameStatesAfter
           (handleMove reverseUnder 0 30000 mockClients
              [''test-game-id'' \<mapsto> mockGameState
                 \<lparr>players := [(''player1'', [\<lparr>v = 5, s = ''hearts''\<rparr>, \<lparr>v = 5, s = ''hearts''\<rparr>,
                                             \<lparr>v = 7, s = ''spades''\<rparr>, \<lparr>v = 2, s = ''clubs''\<rparr>]),
                              (''player2'', [\<lparr>v = 9, s = ''diamonds''\<rparr>,
                                             \<lparr>v = 11, s = ''hearts''\<rparr>])]\<rparr>]
              1 ''test-game-id'' ''player1'' ''player2''
              [\<lparr>v = 5, s = ''hearts'', kind = ''PLAY''\<rparr>] None)
           ''test-game-id'') = Some 9"
  by (simp add: mock_defs handler_defs allCards_def allHands_def)

text \<open>
  C2, amended. Let the reshuffle return the cards it is given in some order, let the
  drawn cards, if the turn draws any, be the cards on top of the deck
  (\<^verbatim>\<open>validateDrawnCards\<close>, after the reshuffle), and let the played cards be distinct
  and each occur exactly once in the actor's hand with the drawn cards added. Then the
  session that \<^verbatim>\<open>handleMove\<close> leaves has the same cards, with the same
  multiplicities, across the hands, the deck and the played cards as the session it
  found. Nothing is said of a draw whose claimed cards are not on top of the deck.
\<close>

theorem conservation_of_cards:
  assumes "gameStates gameId' = Some gameState0"
    and "getHand gameState0 from' = Some hand"
    and "mset (reshufflePlayedCards [] (butlast (playedCards gameState0)))
           = mset (butlast (playedCards gameState0))"
    and "filter (\<lambda>c. kind c = ''DRAW'') cards \<noteq> [] \<longrightarrow>
           validateDrawnCards (deck (fst (handleDeckReshuffle reshufflePlayedCards gameState0)))
             (map cardOf (filter (\<lambda>c. kind c = ''DRAW'') cards))"
    and "distinct (map cardOf (filter (\<lambda>c. kind c = ''PLAY'') cards))"
    and "\<forall>a \<in> set (filter (\<lambda>c. kind c = ''PLAY'') cards).
           count (mset (hand @ map cardOf (filter (\<lambda>c. kind c = ''DRAW'') cards))) (cardOf a) = 1"
  shows "\<exists>g. gameStatesAfter (handleMove reshufflePlayedCards now PLAY_TIMEOUT_DURATION clients
                  gameStates ws gameId' from' to' cards newSuit) gameId' = Some g
            \<and> allCards g = allCards gameState0"
proof -
  let ?g1 = "gameState0\<lparr>waitTimeout := None\<rparr>"
  from handleMove_final_state[where gameStates = gameStates and gameId' = gameId'
      and rs = reshufflePlayedCards and cards = cards and ns = newSuit and now = now
      and dur = PLAY_TIMEOUT_DURATION and clients = clients and ws = ws and to' = to',
      OF assms(1,2)]
  obtain g2 resh gl gf where
    dp: "drawPhase reshufflePlayedCards ?g1 from' cards = Inr (g2, True, resh)"
    and pl: "playLoop g2 from' newSuit False (filter (\<lambda>c. kind c = ''PLAY'') cards) = LoopWon gl
             \<or> (\<exists>c. playLoop g2 from' newSuit False (filter (\<lambda>c. kind c = ''PLAY'') cards)
                        = LoopDone gl c)"
    and gf: "gameStatesAfter (handleMove reshufflePlayedCards now PLAY_TIMEOUT_DURATION clients
                  gameStates ws gameId' from' to' cards newSuit) gameId' = Some gf"
    and f: "players gf = players gl" "deck gf = deck gl" "playedCards gf = playedCards gl"
    by blast
  have h1: "getHand ?g1 from' = Some hand" using assms(2) by (simp add: getHand_def)
  have p1: "mset (reshufflePlayedCards [] (butlast (playedCards ?g1)))
              = mset (butlast (playedCards ?g1))"
    using assms(3) by simp
  have v1: "filter (\<lambda>c. kind c = ''DRAW'') cards \<noteq> [] \<longrightarrow>
              validateDrawnCards (deck (fst (handleDeckReshuffle reshufflePlayedCards ?g1)))
                (map cardOf (filter (\<lambda>c. kind c = ''DRAW'') cards))"
    using assms(4) by (simp add: handleDeckReshuffle_waitTimeout)
  from drawPhase_conserves[OF h1 p1 v1 dp]
  have c2: "allCards g2 = allCards gameState0"
    and h2: "getHand g2 from'
               = Some (hand @ map cardOf (filter (\<lambda>c. kind c = ''DRAW'') cards))"
    by simp_all
  from pl obtain c where
    "playLoop g2 from' newSuit False (filter (\<lambda>c. kind c = ''PLAY'') cards) = LoopDone gl c
     \<or> playLoop g2 from' newSuit False (filter (\<lambda>c. kind c = ''PLAY'') cards) = LoopWon gl"
    by blast
  from playLoop_conserves[OF h2 assms(5,6) this] have "allCards gl = allCards g2" .
  moreover have "allCards gf = allCards gl" by (simp add: allCards_def f)
  ultimately show ?thesis using gf c2 by simp
qed

theorem conservation_of_cards_witness:
  "\<exists>g. gameStatesAfter
          (mockMove [\<lparr>v = 6, s = ''clubs'', kind = ''DRAW''\<rparr>,
                     \<lparr>v = 5, s = ''hearts'', kind = ''PLAY''\<rparr>] None) ''test-game-id'' = Some g
        \<and> allCards g = allCards mockGameState"
proof -
  have a1: "mockGameStates ''test-game-id'' = Some mockGameState"
    by (simp add: mockGameStates_def)
  have a2: "getHand mockGameState ''player1''
              = Some [\<lparr>v = 5, s = ''hearts''\<rparr>, \<lparr>v = 7, s = ''spades''\<rparr>, \<lparr>v = 2, s = ''clubs''\<rparr>]"
    by (simp add: getHand_def mockGameState_def)
  have a3: "mset (reverseUnder [] (butlast (playedCards mockGameState)))
              = mset (butlast (playedCards mockGameState))"
    by (simp add: reverseUnder_def)
  let ?cards = "[\<lparr>v = 6, s = ''clubs'', kind = ''DRAW''\<rparr>,
                 \<lparr>v = 5, s = ''hearts'', kind = ''PLAY''\<rparr>]"
  have a4: "filter (\<lambda>c. kind c = ''DRAW'') ?cards \<noteq> [] \<longrightarrow>
              validateDrawnCards (deck (fst (handleDeckReshuffle reverseUnder mockGameState)))
                (map cardOf (filter (\<lambda>c. kind c = ''DRAW'') ?cards))"
    by (simp add: validateDrawnCards_def handleDeckReshuffle_def sliceLast_def cardOf_def
        minimumDeckSize_def mockGameState_def)
  have a5: "distinct (map cardOf (filter (\<lambda>c. kind c = ''PLAY'') ?cards))"
    by simp
  have a6: "\<forall>a \<in> set (filter (\<lambda>c. kind c = ''PLAY'') ?cards).
              count (mset ([\<lparr>v = 5, s = ''hearts''\<rparr>, \<lparr>v = 7, s = ''spades''\<rparr>,
                            \<lparr>v = 2, s = ''clubs''\<rparr>]
                           @ map cardOf (filter (\<lambda>c. kind c = ''DRAW'') ?cards))) (cardOf a) = 1"
    by (simp add: cardOf_def)
  from conservation_of_cards[where gameStates = mockGameStates
      and gameId' = "''test-game-id''" and from' = "''player1''"
      and reshufflePlayedCards = reverseUnder and now = 0 and PLAY_TIMEOUT_DURATION = 30000
      and clients = mockClients and ws = 1 and to' = "''player2''" and newSuit = None,
      OF a1 a2 a3 a4 a5 a6]
  show ?thesis unfolding mockMove_def .
qed

subsection \<open>A draw that does not match the deck\<close>

text \<open>
  C7 asks that a draw whose claimed card is not the top card of the deck be answered
  with an error and change nothing. The repository's test
  \<^verbatim>\<open>should return error for invalid drawn cards\<close> asks the same, on the session
  and the request below. The check is commented out in \<^verbatim>\<open>processDrawAction\<close>: the
  move completes, no error is sent, the top card (6 of Clubs) leaves the deck and the
  claimed card (999 of \<^verbatim>\<open>invalid\<close>) enters the hand.
\<close>

theorem draw_mismatch_not_rejected:
  "\<not> validateDrawnCards (deck mockGameState) [\<lparr>v = 999, s = ''invalid''\<rparr>]
   \<and> exit (mockMove [\<lparr>v = 999, s = ''invalid'', kind = ''DRAW''\<rparr>] None) = Completed
   \<and> list_all (\<lambda>e. case e of SendError w m \<Rightarrow> False | _ \<Rightarrow> True)
        (effects (mockMove [\<lparr>v = 999, s = ''invalid'', kind = ''DRAW''\<rparr>] None))
   \<and> map_option deck
        (gameStatesAfter (mockMove [\<lparr>v = 999, s = ''invalid'', kind = ''DRAW''\<rparr>] None)
           ''test-game-id'')
       = Some [\<lparr>v = 3, s = ''spades''\<rparr>, \<lparr>v = 4, s = ''hearts''\<rparr>]
   \<and> map_option (\<lambda>g. getHand g ''player1'')
        (gameStatesAfter (mockMove [\<lparr>v = 999, s = ''invalid'', kind = ''DRAW''\<rparr>] None)
           ''test-game-id'')
       = Some (Some [\<lparr>v = 5, s = ''hearts''\<rparr>, \<lparr>v = 7, s = ''spades''\<rparr>,
                     \<lparr>v = 2, s = ''clubs''\<rparr>, \<lparr>v = 999, s = ''invalid''\<rparr>])"
  by (simp add: mock_defs handler_defs validateDrawnCards_def)

subsection \<open>Moves the rules engine rejects\<close>

lemma playLoop_playedCards:
  assumes "getHand g k = Some h"
    and "playLoop g k ns c as = LoopDone g' c' \<or> playLoop g k ns c as = LoopWon g'"
  shows "\<exists>n. n \<le> length as \<and> (as \<noteq> [] \<longrightarrow> 0 < n)
             \<and> playedCards g' = playedCards g @ map cardOf (take n as)"
  using assms
proof (induction as arbitrary: g h c)
  case Nil
  then show ?case by auto
next
  case (Cons a as)
  from processPlayAction_Inr[OF Cons.prems(1), of "cardOf a" ns] obtain g1 cutting n where
    p: "processPlayAction g k (cardOf a) ns = Inr (g1, cutting, n)"
    and pc: "playedCards g1 = playedCards g @ [cardOf a]"
    by blast
  from processPlayAction_getHand[OF Cons.prems(1) p] obtain h1 where
    h1: "getHand g1 k = Some h1" by auto
  show ?case
  proof (cases "n = 1")
    case True
    with Cons.prems(2) p have "g' = g1" by simp
    with pc have "playedCards g' = playedCards g @ map cardOf (take 1 (a # as))" by simp
    then show ?thesis by (intro exI[of _ 1]) simp
  next
    case False
    with Cons.prems(2) p have
      "playLoop g1 k ns (c \<or> cutting) as = LoopDone g' c'
       \<or> playLoop g1 k ns (c \<or> cutting) as = LoopWon g'"
      by simp
    from Cons.IH[OF h1 this] obtain m where
      m: "m \<le> length as" "playedCards g' = playedCards g1 @ map cardOf (take m as)"
      by blast
    with pc have "playedCards g' = playedCards g @ map cardOf (take (Suc m) (a # as))"
      by simp
    with m(1) show ?thesis by (intro exI[of _ "Suc m"]) simp
  qed
qed

text \<open>
  C1 as the claim states it fails: \<^verbatim>\<open>handleMove\<close> never calls the rules engine.
  On the 8 of Diamonds \<^verbatim>\<open>getNextAction\<close> classifies the 5 of Hearts as
  \<^verbatim>\<open>INVALID_MOVE\<close>, and the handler plays it: the card leaves the hand, becomes
  the current card and the turn passes.
\<close>

theorem invalid_move_counterexample:
  "type (getNextAction (currentCard mockGameState) \<lparr>v = 5, s = ''hearts''\<rparr> False
           (chosenSuit mockGameState) (activePenaltyCount mockGameState) 0) = INVALID_MOVE
   \<and> exit (mockMove [\<lparr>v = 5, s = ''hearts'', kind = ''PLAY''\<rparr>] None) = Completed
   \<and> gameStatesAfter (mockMove [\<lparr>v = 5, s = ''hearts'', kind = ''PLAY''\<rparr>] None)
        ''test-game-id''
       = Some (mockGameState
                 \<lparr>players := [(''player1'', [\<lparr>v = 7, s = ''spades''\<rparr>, \<lparr>v = 2, s = ''clubs''\<rparr>]),
                              (''player2'', [\<lparr>v = 9, s = ''diamonds''\<rparr>,
                                             \<lparr>v = 11, s = ''hearts''\<rparr>])],
                  playedCards := [\<lparr>v = 8, s = ''diamonds''\<rparr>, \<lparr>v = 5, s = ''hearts''\<rparr>],
                  currentCard := Some \<lparr>v = 5, s = ''hearts''\<rparr>,
                  currentTurn := ''player2''\<rparr>)
   \<and> gameStatesAfter (mockMove [\<lparr>v = 5, s = ''hearts'', kind = ''PLAY''\<rparr>] None)
        ''test-game-id'' \<noteq> mockGameStates ''test-game-id''"
  by (simp add: mock_defs handler_defs getNextAction_def plainAction_def checker_defs
      rules_consts)

lemma cardOf_fields: "v (cardOf a) = v a" "s (cardOf a) = s a"
  by (simp_all add: cardOf_def)

lemma filter_played_Cons:
  "filter (\<lambda>c. \<forall>b \<in> set (a # xs). \<not> (v c = v b \<and> s c = s b)) h
   = filter (\<lambda>c. \<forall>b \<in> set xs. \<not> (v c = v b \<and> s c = s b))
       (filter (\<lambda>c. \<not> (v c = v a \<and> s c = s a)) h)"
  by (induction h) auto

lemma playLoop_all_played:
  assumes "getHand g k = Some h"
    and "\<forall>m. 0 < m \<and> m \<le> length as \<longrightarrow>
           length (filter (\<lambda>c. \<forall>b \<in> set (take m as). \<not> (v c = v b \<and> s c = s b)) h) \<noteq> 1"
  shows "\<exists>g' c'. playLoop g k ns c as = LoopDone g' c'
           \<and> playedCards g' = playedCards g @ map cardOf as
           \<and> getHand g' k
               = Some (filter (\<lambda>c. \<forall>b \<in> set as. \<not> (v c = v b \<and> s c = s b)) h)"
  using assms
proof (induction as arbitrary: g h c)
  case Nil
  then show ?case by simp
next
  case (Cons a as)
  let ?h1 = "filter (\<lambda>c. \<not> (v c = v a \<and> s c = s a)) h"
  from processPlayAction_Inr[OF Cons.prems(1), of "cardOf a" ns] obtain g1 cutting where
    p: "processPlayAction g k (cardOf a) ns = Inr (g1, cutting, length ?h1)"
    and pc: "playedCards g1 = playedCards g @ [cardOf a]"
    by (auto simp: cardOf_fields)
  from processPlayAction_getHand[OF Cons.prems(1) p]
  have h1: "getHand g1 k = Some ?h1" by (simp add: cardOf_fields)
  from Cons.prems(2)[rule_format, of 1] have n1: "length ?h1 \<noteq> 1"
    by (simp add: filter_played_Cons)
  have rest: "\<forall>m. 0 < m \<and> m \<le> length as \<longrightarrow>
                length (filter (\<lambda>c. \<forall>b \<in> set (take m as). \<not> (v c = v b \<and> s c = s b)) ?h1)
                  \<noteq> 1"
  proof (intro allI impI)
    fix m assume m: "0 < m \<and> m \<le> length as"
    from Cons.prems(2)[rule_format, of "Suc m"] m
    show "length (filter (\<lambda>c. \<forall>b \<in> set (take m as). \<not> (v c = v b \<and> s c = s b)) ?h1) \<noteq> 1"
      by (simp add: filter_played_Cons)
  qed
  from Cons.IH[OF h1 rest, of "c \<or> cutting"] obtain g' c' where
    "playLoop g1 k ns (c \<or> cutting) as = LoopDone g' c'"
    "playedCards g' = playedCards g1 @ map cardOf as"
    "getHand g' k = Some (filter (\<lambda>c. \<forall>b \<in> set as. \<not> (v c = v b \<and> s c = s b)) ?h1)"
    by blast
  with p pc n1 show ?case by (simp add: filter_played_Cons)
qed

lemma playLoop_first_win:
  assumes "getHand g k = Some h"
    and "0 < n" and "n \<le> length as"
    and "length (filter (\<lambda>c. \<forall>b \<in> set (take n as). \<not> (v c = v b \<and> s c = s b)) h) = 1"
    and "\<forall>m. 0 < m \<and> m < n \<longrightarrow>
           length (filter (\<lambda>c. \<forall>b \<in> set (take m as). \<not> (v c = v b \<and> s c = s b)) h) \<noteq> 1"
  shows "\<exists>g'. playLoop g k ns c as = LoopWon g'
           \<and> playedCards g' = playedCards g @ map cardOf (take n as)
           \<and> getHand g' k
               = Some (filter (\<lambda>c. \<forall>b \<in> set (take n as). \<not> (v c = v b \<and> s c = s b)) h)"
  using assms
proof (induction as arbitrary: g h c n)
  case Nil
  then show ?case by simp
next
  case (Cons a as)
  let ?h1 = "filter (\<lambda>c. \<not> (v c = v a \<and> s c = s a)) h"
  from processPlayAction_Inr[OF Cons.prems(1), of "cardOf a" ns] obtain g1 cutting where
    p: "processPlayAction g k (cardOf a) ns = Inr (g1, cutting, length ?h1)"
    and pc: "playedCards g1 = playedCards g @ [cardOf a]"
    by (auto simp: cardOf_fields)
  from processPlayAction_getHand[OF Cons.prems(1) p]
  have h1: "getHand g1 k = Some ?h1" by (simp add: cardOf_fields)
  from Cons.prems(2) obtain n' where n: "n = Suc n'" by (cases n) auto
  show ?case
  proof (cases "n' = 0")
    case True
    with n Cons.prems(4) have "length ?h1 = 1" by (simp add: filter_played_Cons)
    with p pc h1 n True show ?thesis by (simp add: filter_played_Cons)
  next
    case False
    from Cons.prems(5)[rule_format, of 1] n False have n1: "length ?h1 \<noteq> 1"
      by (simp add: filter_played_Cons)
    have a2: "0 < n'" using False by simp
    have a3: "n' \<le> length as" using Cons.prems(3) n by simp
    have a4: "length (filter (\<lambda>c. \<forall>b \<in> set (take n' as). \<not> (v c = v b \<and> s c = s b)) ?h1)
              = 1"
      using Cons.prems(4) n by (simp add: filter_played_Cons)
    have a5: "\<forall>m. 0 < m \<and> m < n' \<longrightarrow>
                length (filter (\<lambda>c. \<forall>b \<in> set (take m as). \<not> (v c = v b \<and> s c = s b)) ?h1)
                  \<noteq> 1"
    proof (intro allI impI)
      fix m assume m: "0 < m \<and> m < n'"
      from Cons.prems(5)[rule_format, of "Suc m"] m n
      show "length (filter (\<lambda>c. \<forall>b \<in> set (take m as). \<not> (v c = v b \<and> s c = s b)) ?h1)
            \<noteq> 1"
        by (simp add: filter_played_Cons)
    qed
    from Cons.IH[OF h1 a2 a3 a4 a5, of "c \<or> cutting"] obtain g' where
      "playLoop g1 k ns (c \<or> cutting) as = LoopWon g'"
      "playedCards g' = playedCards g1 @ map cardOf (take n' as)"
      "getHand g' k
         = Some (filter (\<lambda>c. \<forall>b \<in> set (take n' as). \<not> (v c = v b \<and> s c = s b)) ?h1)"
      by blast
    with p pc n1 n show ?thesis by (simp add: filter_played_Cons)
  qed
qed

lemma handleMove_exit_NoCards:
  assumes "gameStates gameId' = Some gs0" and "getHand gs0 from' = Some h0"
    and "drawPhase rs (gs0\<lparr>waitTimeout := None\<rparr>) from' cards = Inr (g2, True, resh)"
  shows "exit (handleMove rs now dur clients gameStates ws gameId' from' to' cards ns) = NoCards
         \<longleftrightarrow> (\<exists>gl. playLoop g2 from' ns False (filter (\<lambda>c. kind c = ''PLAY'') cards)
                     = LoopWon gl)"
proof (cases "playLoop g2 from' ns False (filter (\<lambda>c. kind c = ''PLAY'') cards)")
  case (LoopThrew g)
  with assms show ?thesis by (simp add: handleMove_def Let_def)
next
  case (LoopWon g)
  with assms show ?thesis by (simp add: handleMove_def Let_def)
next
  case (LoopDone g c)
  with assms show ?thesis
    by (simp add: handleMove_def Let_def split: option.splits prod.splits)
qed

text \<open>
  C1, amended. \<^verbatim>\<open>handleMove\<close> does not consult the rules engine and rejects no play.
  For every request whose session and actor exist and that contains a play sub-action,
  whatever \<^verbatim>\<open>getNextAction\<close> says of any of them, no error is sent and the plays are
  applied in order to the session as the draw phase left it. If no play leaves exactly
  one card in the actor's hand, every play is applied: all the played cards are appended
  to \<^verbatim>\<open>playedCards\<close> and every copy of them has left the hand. Otherwise the plays
  up to the first one that leaves exactly one card are applied, and the call ends with
  \<^verbatim>\<open>NO_CARDS\<close>. In a turn without draws the pile of played cards grows, so the
  session after the call is not the session before it. In the witness the 5 of Hearts,
  an \<^verbatim>\<open>INVALID_MOVE\<close> on the 8 of Diamonds for the engine, and then the 2 of Clubs
  are both played.
\<close>

theorem plays_are_applied_unchecked:
  assumes "gameStates gameId' = Some gameState0"
    and "getHand gameState0 from' \<noteq> None"
    and "filter (\<lambda>c. kind c = ''PLAY'') cards \<noteq> []"
  shows "\<exists>gameState2 reshuffled hand g.
           drawPhase reshufflePlayedCards (gameState0\<lparr>waitTimeout := None\<rparr>) from' cards
             = Inr (gameState2, True, reshuffled)
         \<and> getHand gameState2 from' = Some hand
         \<and> gameStatesAfter (handleMove reshufflePlayedCards now PLAY_TIMEOUT_DURATION clients
               gameStates ws gameId' from' to' cards newSuit) gameId' = Some g
         \<and> (\<forall>w m. SendError w m
                     \<notin> set (effects (handleMove reshufflePlayedCards now PLAY_TIMEOUT_DURATION
                                       clients gameStates ws gameId' from' to' cards newSuit)))
         \<and> ((\<forall>m. 0 < m \<and> m \<le> length (filter (\<lambda>c. kind c = ''PLAY'') cards) \<longrightarrow>
                   length (filter (\<lambda>c. \<forall>b \<in> set (take m (filter (\<lambda>c. kind c = ''PLAY'') cards)).
                                          \<not> (v c = v b \<and> s c = s b)) hand) \<noteq> 1)
              \<longrightarrow> exit (handleMove reshufflePlayedCards now PLAY_TIMEOUT_DURATION clients
                          gameStates ws gameId' from' to' cards newSuit) \<noteq> NoCards
                  \<and> playedCards g
                      = playedCards gameState2
                        @ map cardOf (filter (\<lambda>c. kind c = ''PLAY'') cards)
                  \<and> getHand g from'
                      = Some (filter (\<lambda>c. \<forall>b \<in> set (filter (\<lambda>c. kind c = ''PLAY'') cards).
                                            \<not> (v c = v b \<and> s c = s b)) hand))
         \<and> (\<forall>n. 0 < n \<and> n \<le> length (filter (\<lambda>c. kind c = ''PLAY'') cards)
                  \<and> length (filter (\<lambda>c. \<forall>b \<in> set (take n (filter (\<lambda>c. kind c = ''PLAY'') cards)).
                                           \<not> (v c = v b \<and> s c = s b)) hand) = 1
                  \<and> (\<forall>m. 0 < m \<and> m < n \<longrightarrow>
                        length (filter (\<lambda>c. \<forall>b \<in> set (take m (filter (\<lambda>c. kind c = ''PLAY'')
                                                                    cards)).
                                               \<not> (v c = v b \<and> s c = s b)) hand) \<noteq> 1)
              \<longrightarrow> exit (handleMove reshufflePlayedCards now PLAY_TIMEOUT_DURATION clients
                          gameStates ws gameId' from' to' cards newSuit) = NoCards
                  \<and> playedCards g
                      = playedCards gameState2
                        @ map cardOf (take n (filter (\<lambda>c. kind c = ''PLAY'') cards))
                  \<and> getHand g from'
                      = Some (filter (\<lambda>c. \<forall>b \<in> set (take n (filter (\<lambda>c. kind c = ''PLAY'')
                                                                  cards)).
                                            \<not> (v c = v b \<and> s c = s b)) hand))
         \<and> (\<exists>n. 0 < n \<and> n \<le> length (filter (\<lambda>c. kind c = ''PLAY'') cards)
                 \<and> playedCards g
                     = playedCards gameState2
                       @ map cardOf (take n (filter (\<lambda>c. kind c = ''PLAY'') cards)))
         \<and> (filter (\<lambda>c. kind c = ''DRAW'') cards = [] \<longrightarrow>
               length (playedCards gameState0) < length (playedCards g) \<and> g \<noteq> gameState0)"
proof -
  let ?plays = "filter (\<lambda>c. kind c = ''PLAY'') cards"
  let ?r = "handleMove reshufflePlayedCards now PLAY_TIMEOUT_DURATION clients
               gameStates ws gameId' from' to' cards newSuit"
  let ?rem = "\<lambda>h xs. filter (\<lambda>c. \<forall>b \<in> set xs. \<not> (v c = v b \<and> s c = s b)) h"
  from assms(2) obtain h0 where h0: "getHand gameState0 from' = Some h0" by auto
  from handleMove_final_state[where gameStates = gameStates and gameId' = gameId'
      and rs = reshufflePlayedCards and cards = cards and ns = newSuit and now = now
      and dur = PLAY_TIMEOUT_DURATION and clients = clients and ws = ws and to' = to',
      OF assms(1) h0]
  obtain g2 resh gl gf where
    dp: "drawPhase reshufflePlayedCards (gameState0\<lparr>waitTimeout := None\<rparr>) from' cards
           = Inr (g2, True, resh)"
    and pl: "playLoop g2 from' newSuit False ?plays = LoopWon gl
             \<or> (\<exists>c. playLoop g2 from' newSuit False ?plays = LoopDone gl c)"
    and gf: "gameStatesAfter ?r gameId' = Some gf"
    and fp: "players gf = players gl"
    and f: "playedCards gf = playedCards gl"
    and ne: "\<forall>w m. SendError w m \<notin> set (effects ?r)"
    by blast
  have hg: "getHand gf from' = getHand gl from'" by (simp add: getHand_def fp)
  have h1: "getHand (gameState0\<lparr>waitTimeout := None\<rparr>) from' = Some h0"
    using h0 by (simp add: getHand_def)
  from drawPhase_Inr[OF h1, of reshufflePlayedCards cards] dp
  obtain h2 where h2: "getHand g2 from' = Some h2" by auto
  note ex = handleMove_exit_NoCards[where gameStates = gameStates and gameId' = gameId'
      and rs = reshufflePlayedCards and cards = cards and ns = newSuit and now = now
      and dur = PLAY_TIMEOUT_DURATION and clients = clients and ws = ws and to' = to',
      OF assms(1) h0 dp]
  have A: "(\<forall>m. 0 < m \<and> m \<le> length ?plays \<longrightarrow> length (?rem h2 (take m ?plays)) \<noteq> 1)
           \<longrightarrow> exit ?r \<noteq> NoCards
               \<and> playedCards gf = playedCards g2 @ map cardOf ?plays
               \<and> getHand gf from' = Some (?rem h2 ?plays)"
  proof
    assume a: "\<forall>m. 0 < m \<and> m \<le> length ?plays \<longrightarrow> length (?rem h2 (take m ?plays)) \<noteq> 1"
    from playLoop_all_played[OF h2 a, of newSuit False] obtain g' c' where
      d: "playLoop g2 from' newSuit False ?plays = LoopDone g' c'"
      and d2: "playedCards g' = playedCards g2 @ map cardOf ?plays"
        "getHand g' from' = Some (?rem h2 ?plays)"
      by blast
    from pl d have "gl = g'" by auto
    with d d2 f hg ex
    show "exit ?r \<noteq> NoCards
          \<and> playedCards gf = playedCards g2 @ map cardOf ?plays
          \<and> getHand gf from' = Some (?rem h2 ?plays)"
      by simp
  qed
  have B: "\<forall>n. 0 < n \<and> n \<le> length ?plays \<and> length (?rem h2 (take n ?plays)) = 1
               \<and> (\<forall>m. 0 < m \<and> m < n \<longrightarrow> length (?rem h2 (take m ?plays)) \<noteq> 1)
           \<longrightarrow> exit ?r = NoCards
               \<and> playedCards gf = playedCards g2 @ map cardOf (take n ?plays)
               \<and> getHand gf from' = Some (?rem h2 (take n ?plays))"
  proof (intro allI impI)
    fix n
    assume b: "0 < n \<and> n \<le> length ?plays \<and> length (?rem h2 (take n ?plays)) = 1
               \<and> (\<forall>m. 0 < m \<and> m < n \<longrightarrow> length (?rem h2 (take m ?plays)) \<noteq> 1)"
    then have b1: "0 < n" and b2: "n \<le> length ?plays"
      and b3: "length (?rem h2 (take n ?plays)) = 1"
      and b4: "\<forall>m. 0 < m \<and> m < n \<longrightarrow> length (?rem h2 (take m ?plays)) \<noteq> 1"
      by blast+
    from playLoop_first_win[OF h2 b1 b2 b3 b4, of newSuit False] obtain g' where
      w: "playLoop g2 from' newSuit False ?plays = LoopWon g'"
      and w2: "playedCards g' = playedCards g2 @ map cardOf (take n ?plays)"
        "getHand g' from' = Some (?rem h2 (take n ?plays))"
      by blast
    from pl w have "gl = g'" by auto
    with w w2 f hg ex
    show "exit ?r = NoCards
          \<and> playedCards gf = playedCards g2 @ map cardOf (take n ?plays)
          \<and> getHand gf from' = Some (?rem h2 (take n ?plays))"
      by simp
  qed
  from pl obtain c where
    "playLoop g2 from' newSuit False ?plays = LoopDone gl c
     \<or> playLoop g2 from' newSuit False ?plays = LoopWon gl"
    by blast
  from playLoop_playedCards[OF h2 this] assms(3) obtain n where
    n: "0 < n" "n \<le> length ?plays" "playedCards gl = playedCards g2 @ map cardOf (take n ?plays)"
    by blast
  with f have C: "\<exists>n. 0 < n \<and> n \<le> length ?plays
                     \<and> playedCards gf = playedCards g2 @ map cardOf (take n ?plays)"
    by auto
  have nodraw: "filter (\<lambda>c. kind c = ''DRAW'') cards = [] \<longrightarrow>
                  length (playedCards gameState0) < length (playedCards gf)
                  \<and> gf \<noteq> gameState0"
  proof
    assume "filter (\<lambda>c. kind c = ''DRAW'') cards = []"
    with dp have "g2 = gameState0\<lparr>waitTimeout := None\<rparr>" by (simp add: drawPhase_def)
    with n f assms(3)
    have "length (playedCards gameState0) < length (playedCards gf)"
      by (cases ?plays) auto
    then show "length (playedCards gameState0) < length (playedCards gf)
               \<and> gf \<noteq> gameState0"
      by auto
  qed
  show ?thesis
    apply (rule exI[of _ g2], rule exI[of _ resh], rule exI[of _ h2], rule exI[of _ gf])
    using dp h2 gf ne A B C nodraw by (intro conjI) assumption+
qed

theorem plays_are_applied_unchecked_witness:
  "type (getNextAction (currentCard mockGameState) \<lparr>v = 5, s = ''hearts''\<rparr> False
           (chosenSuit mockGameState) (activePenaltyCount mockGameState) 0) = INVALID_MOVE
   \<and> (\<exists>g. gameStatesAfter (mockMove [\<lparr>v = 5, s = ''hearts'', kind = ''PLAY''\<rparr>,
                                       \<lparr>v = 2, s = ''clubs'', kind = ''PLAY''\<rparr>] None)
             ''test-game-id'' = Some g
          \<and> playedCards g = [\<lparr>v = 8, s = ''diamonds''\<rparr>, \<lparr>v = 5, s = ''hearts''\<rparr>,
                              \<lparr>v = 2, s = ''clubs''\<rparr>]
          \<and> getHand g ''player1'' = Some [\<lparr>v = 7, s = ''spades''\<rparr>]
          \<and> g \<noteq> mockGameState)
   \<and> exit (mockMove [\<lparr>v = 5, s = ''hearts'', kind = ''PLAY''\<rparr>,
                      \<lparr>v = 2, s = ''clubs'', kind = ''PLAY''\<rparr>] None) = NoCards
   \<and> (\<forall>w m. SendError w m
               \<notin> set (effects (mockMove [\<lparr>v = 5, s = ''hearts'', kind = ''PLAY''\<rparr>,
                                          \<lparr>v = 2, s = ''clubs'', kind = ''PLAY''\<rparr>] None)))"
proof -
  let ?cards = "[\<lparr>v = 5, s = ''hearts'', kind = ''PLAY''\<rparr>,
                 \<lparr>v = 2, s = ''clubs'', kind = ''PLAY''\<rparr>]"
  let ?r = "handleMove reverseUnder 0 30000 mockClients mockGameStates 1 ''test-game-id''
              ''player1'' ''player2'' ?cards None"
  have a1: "mockGameStates ''test-game-id'' = Some mockGameState"
    by (simp add: mockGameStates_def)
  have a2: "getHand mockGameState ''player1'' \<noteq> None"
    by (simp add: getHand_def mockGameState_def)
  have a3: "filter (\<lambda>c. kind c = ''PLAY'') ?cards \<noteq> []"
    by simp
  have e: "type (getNextAction (currentCard mockGameState) \<lparr>v = 5, s = ''hearts''\<rparr> False
           (chosenSuit mockGameState) (activePenaltyCount mockGameState) 0) = INVALID_MOVE"
    by (simp add: mockGameState_def getNextAction_def plainAction_def checker_defs
        rules_consts)
  have d: "drawPhase reverseUnder (mockGameState\<lparr>waitTimeout := None\<rparr>) ''player1'' ?cards
           = Inr (mockGameState, True, False)"
    by (simp add: drawPhase_def mockGameState_def)
  have hd: "getHand mockGameState ''player1''
              = Some [\<lparr>v = 5, s = ''hearts''\<rparr>, \<lparr>v = 7, s = ''spades''\<rparr>, \<lparr>v = 2, s = ''clubs''\<rparr>]"
    by (simp add: getHand_def mockGameState_def)
  have pc: "playedCards mockGameState = [\<lparr>v = 8, s = ''diamonds''\<rparr>]"
    by (simp add: mockGameState_def)
  let ?plays = "filter (\<lambda>c. kind c = ''PLAY'') ?cards"
  from plays_are_applied_unchecked[where gameStates = mockGameStates
      and gameId' = "''test-game-id''" and from' = "''player1''"
      and reshufflePlayedCards = reverseUnder and now = 0 and PLAY_TIMEOUT_DURATION = 30000
      and clients = mockClients and ws = 1 and to' = "''player2''" and newSuit = None
      and cards = ?cards, OF a1 a2 a3]
  obtain g2 resh hand g where
    d': "drawPhase reverseUnder (mockGameState\<lparr>waitTimeout := None\<rparr>) ''player1'' ?cards
           = Inr (g2, True, resh)"
    and hd': "getHand g2 ''player1'' = Some hand"
    and g: "gameStatesAfter ?r ''test-game-id'' = Some g"
    and ne: "\<forall>w m. SendError w m \<notin> set (effects ?r)"
    and B0: "\<forall>n. 0 < n \<and> n \<le> length ?plays
                  \<and> length (filter (\<lambda>c. \<forall>b \<in> set (take n ?plays).
                                           \<not> (v c = v b \<and> s c = s b)) hand) = 1
                  \<and> (\<forall>m. 0 < m \<and> m < n \<longrightarrow>
                        length (filter (\<lambda>c. \<forall>b \<in> set (take m ?plays).
                                               \<not> (v c = v b \<and> s c = s b)) hand) \<noteq> 1)
              \<longrightarrow> exit ?r = NoCards
                  \<and> playedCards g = playedCards g2 @ map cardOf (take n ?plays)
                  \<and> getHand g ''player1''
                      = Some (filter (\<lambda>c. \<forall>b \<in> set (take n ?plays).
                                            \<not> (v c = v b \<and> s c = s b)) hand)"
    and nd0: "filter (\<lambda>c. kind c = ''DRAW'') ?cards = [] \<longrightarrow>
               length (playedCards mockGameState) < length (playedCards g) \<and> g \<noteq> mockGameState"
    by (elim exE conjE) (rule that)
  from d d' have g2: "g2 = mockGameState" by simp
  from hd hd' g2 have hand: "hand = [\<lparr>v = 5, s = ''hearts''\<rparr>, \<lparr>v = 7, s = ''spades''\<rparr>,
                                     \<lparr>v = 2, s = ''clubs''\<rparr>]"
    by simp
  note B = B0[unfolded hand g2]
  note nd = nd0
  have m1: "\<forall>m::nat. 0 < m \<and> m < 2 \<longrightarrow> m = 1" by auto
  have pre: "0 < (2::nat) \<and> 2 \<le> length (filter (\<lambda>c. kind c = ''PLAY'') ?cards)
             \<and> length (filter (\<lambda>c. \<forall>b \<in> set (take 2 (filter (\<lambda>c. kind c = ''PLAY'') ?cards)).
                                      \<not> (v c = v b \<and> s c = s b))
                         [\<lparr>v = 5, s = ''hearts''\<rparr>, \<lparr>v = 7, s = ''spades''\<rparr>,
                          \<lparr>v = 2, s = ''clubs''\<rparr>]) = 1
             \<and> (\<forall>m. 0 < m \<and> m < 2 \<longrightarrow>
                   length (filter (\<lambda>c. \<forall>b \<in> set (take m (filter (\<lambda>c. kind c = ''PLAY'')
                                                               ?cards)).
                                          \<not> (v c = v b \<and> s c = s b))
                             [\<lparr>v = 5, s = ''hearts''\<rparr>, \<lparr>v = 7, s = ''spades''\<rparr>,
                              \<lparr>v = 2, s = ''clubs''\<rparr>]) \<noteq> 1)"
  proof (intro conjI allI impI)
    fix m :: nat assume "0 < m \<and> m < 2"
    then have "m = 1" by auto
    then show "length (filter (\<lambda>c. \<forall>b \<in> set (take m (filter (\<lambda>c. kind c = ''PLAY'')
                                                               ?cards)).
                                          \<not> (v c = v b \<and> s c = s b))
                             [\<lparr>v = 5, s = ''hearts''\<rparr>, \<lparr>v = 7, s = ''spades''\<rparr>,
                              \<lparr>v = 2, s = ''clubs''\<rparr>]) \<noteq> 1"
      by simp
  qed simp_all
  from B[rule_format, OF pre] have
    r: "exit ?r = NoCards"
       "playedCards g = [\<lparr>v = 8, s = ''diamonds''\<rparr>, \<lparr>v = 5, s = ''hearts''\<rparr>,
                         \<lparr>v = 2, s = ''clubs''\<rparr>]"
       "getHand g ''player1'' = Some [\<lparr>v = 7, s = ''spades''\<rparr>]"
    by (simp_all add: pc cardOf_def)
  from nd have "g \<noteq> mockGameState" by simp
  with e g ne r show ?thesis unfolding mockMove_def by blast
qed

end
